theory Spec2Isabelle
  imports Main
begin

section \<open>Python values and exceptions\<close>

text \<open>
  The adapter and the log buffer are Python. Values that travel through untyped
  dictionaries (the persisted graph data of a flow, the result of a flow run, the bodies of
  responses) are modelled by a datatype of JSON-like Python values. A dict is an
  association list read with \<open>map_of\<close>; its keys are strings. Strings are lists of
  characters, one \<open>char\<close> per code point below 256. Floats are not represented.

  Every Python exception is a value: its class and the text \<open>str(e)\<close> gives.
\<close>

datatype py = PNone | PBool bool | PInt int | PStr string | PList "py list" | PDict "(string \<times> py) list"

datatype exc_class = TypeError | AttributeError | KeyError | IndexError | ValueError | OtherError

datatype py_exception = PyException (exc_class: exc_class) (str_exc: string)

text \<open>
  Two pieces of text the messages of exceptions are made of: a string between single
  quotes, which is how \<open>repr\<close> shows a string of printable characters without quotes
  of its own, and the decimal digits of a natural number.
\<close>

definition quoted :: "string \<Rightarrow> string" where
  "quoted s = [CHR 0x27] @ s @ [CHR 0x27]"

fun nat_digits :: "nat \<Rightarrow> string" where
  "nat_digits n =
     (if n < 10 then [char_of (48 + n)] else nat_digits (n div 10) @ [char_of (48 + n mod 10)])"

declare nat_digits.simps [simp del]

section \<open>logging/logger.py: SizedLogBuffer\<close>

text \<open>
  \<open>self.buffer\<close> is a deque, modelled as a list whose head is the left end.
  \<open>p_max\<close> is the attribute \<open>self._max\<close>. The write lock and the reader semaphore
  guard concurrent access and have no effect on a sequential run, so they are not modelled.
\<close>

record 'a SizedLogBuffer =
  buffer :: "'a list"
  max_readers :: nat
  p_max :: int

definition init :: "nat \<Rightarrow> 'a SizedLogBuffer" where
  "init n = \<lparr>buffer = [], max_readers = n, p_max = 0\<rparr>"

text \<open>
  The process environment is a partial map from names to values;
  \<open>getenv\<close> is \<open>os.getenv(name, default)\<close>.
\<close>

type_synonym environ = "string \<Rightarrow> string option"

definition getenv :: "environ \<Rightarrow> string \<Rightarrow> string \<Rightarrow> string" where
  "getenv environ name dflt = (case environ name of None \<Rightarrow> dflt | Some v \<Rightarrow> v)"

text \<open>
  \<open>str.isdigit\<close>: true when the string is not empty and every character is a digit.
  Below code point 256 the digits are 0 to 9 and the superscripts 1, 2 and 3
  (code points 185, 178, 179), which \<open>int()\<close> does not accept. \<open>py_int\<close> is
  \<open>int(s)\<close> for a string that passed \<open>isdigit\<close>: a character that is not a decimal
  digit gives ValueError with the literal in quotes, and so do more than 4300 digits,
  leading zeros counted, which is the interpreter's default limit for the conversion.
\<close>

definition is_decimal_char :: "char \<Rightarrow> bool" where
  "is_decimal_char c = (48 \<le> (of_char c :: nat) \<and> (of_char c :: nat) \<le> 57)"

definition is_digit_char :: "char \<Rightarrow> bool" where
  "is_digit_char c = (is_decimal_char c \<or> (of_char c :: nat) \<in> {178, 179, 185})"

definition isdigit :: "string \<Rightarrow> bool" where
  "isdigit s = (s \<noteq> [] \<and> list_all is_digit_char s)"

definition digits_value :: "string \<Rightarrow> int" where
  "digits_value s = foldl (\<lambda>acc c. 10 * acc + (of_char c - 48)) 0 s"

definition py_int :: "string \<Rightarrow> py_exception + int" where
  "py_int s =
     (if s \<noteq> [] \<and> list_all is_decimal_char s then
        (if length s > 4300 then
           Inl (PyException ValueError
             (''Exceeds the limit (4300 digits) for integer string conversion: value has '' @
              nat_digits (length s) @
              '' digits; use sys.set_int_max_str_digits() to increase the limit''))
         else Inr (digits_value s))
      else Inl (PyException ValueError
             (''invalid literal for int() with base 10: '' @ quoted s)))"

text \<open>
  The property \<open>max\<close> (lines 120 to 127): while \<open>_max\<close> is 0 the environment is read
  again at every access, and a value made of digits is stored in \<open>_max\<close>.
\<close>

definition max_get :: "environ \<Rightarrow> 'a SizedLogBuffer \<Rightarrow> (py_exception + int) \<times> 'a SizedLogBuffer" where
  "max_get environ b =
     (if p_max b = 0 then
        (let env_buffer_size = getenv environ ''AXIESTUDIO_LOG_RETRIEVER_BUFFER_SIZE'' ''0'' in
         if isdigit env_buffer_size then
           (case py_int env_buffer_size of
              Inl e \<Rightarrow> (Inl e, b)
            | Inr n \<Rightarrow> (Inr n, b\<lparr>p_max := n\<rparr>))
         else (Inr (p_max b), b))
      else (Inr (p_max b), b))"

definition max_set :: "'a SizedLogBuffer \<Rightarrow> int \<Rightarrow> 'a SizedLogBuffer" where
  "max_set b v = b\<lparr>p_max := v\<rparr>"

definition enabled :: "environ \<Rightarrow> 'a SizedLogBuffer \<Rightarrow> (py_exception + bool) \<times> 'a SizedLogBuffer" where
  "enabled environ b =
     (case max_get environ b of
        (Inl e, b') \<Rightarrow> (Inl e, b')
      | (Inr m, b') \<Rightarrow> (Inr (m > 0), b'))"

text \<open>\<open>deque.popleft()\<close> raises IndexError on an empty deque.\<close>

definition deque_popleft :: "'a list \<Rightarrow> py_exception + ('a \<times> 'a list)" where
  "deque_popleft d =
     (case d of
        [] \<Rightarrow> Inl (PyException IndexError ''pop from an empty deque'')
      | x # rest \<Rightarrow> Inr (x, rest))"

text \<open>
  \<open>append_buf\<close> is \<open>SizedLogBuffer.append\<close> (lines 86 to 90): compare the length
  with \<open>self.max\<close>, pop on the left when it is reached, then append on the right.
\<close>

definition append_buf :: "environ \<Rightarrow> 'a SizedLogBuffer \<Rightarrow> 'a \<Rightarrow> (py_exception + unit) \<times> 'a SizedLogBuffer" where
  "append_buf environ b item =
     (case max_get environ b of
        (Inl e, b') \<Rightarrow> (Inl e, b')
      | (Inr m, b') \<Rightarrow>
          (if int (length (buffer b')) \<ge> m then
             (case deque_popleft (buffer b') of
                Inl e \<Rightarrow> (Inl e, b')
              | Inr (x, rest) \<Rightarrow> (Inr (), b'\<lparr>buffer := rest @ [item]\<rparr>))
           else (Inr (), b'\<lparr>buffer := buffer b' @ [item]\<rparr>)))"

text \<open>
  \<open>write_buf\<close> is \<open>SizedLogBuffer.write\<close> (lines 45 to 52). It first decodes the
  serialized log record (lines 46 to 48: \<open>json.loads\<close>, two subscriptions, and a float
  multiplied by 1000 and truncated). JSON parsing and float arithmetic are outside this
  embedding, so the three lines are the parameter \<open>decode\<close>, which gives the pair
  \<open>(log_entry, epoch)\<close> or the exception they raise. The rest is the body of
  \<open>append\<close> again, with the dict of the two values as item.
\<close>

type_synonym decoder = "string \<Rightarrow> py_exception + (string \<times> int)"

definition log_item :: "string \<Rightarrow> int \<Rightarrow> py" where
  "log_item log_entry epoch = PDict [(''timestamp'', PInt epoch), (''message'', PStr log_entry)]"

definition write_buf :: "environ \<Rightarrow> decoder \<Rightarrow> py SizedLogBuffer \<Rightarrow> string \<Rightarrow> (py_exception + unit) \<times> py SizedLogBuffer" where
  "write_buf environ decode b message =
     (case decode message of
        Inl e \<Rightarrow> (Inl e, b)
      | Inr (log_entry, epoch) \<Rightarrow>
          (case max_get environ b of
             (Inl e, b') \<Rightarrow> (Inl e, b')
           | (Inr m, b') \<Rightarrow>
               (if int (length (buffer b')) \<ge> m then
                  (case deque_popleft (buffer b') of
                     Inl e \<Rightarrow> (Inl e, b')
                   | Inr (x, rest) \<Rightarrow> (Inr (), b'\<lparr>buffer := rest @ [log_item log_entry epoch]\<rparr>))
                else (Inr (), b'\<lparr>buffer := buffer b' @ [log_item log_entry epoch]\<rparr>))))"

definition read_buf :: "'a SizedLogBuffer \<Rightarrow> 'a list" where
  "read_buf b = buffer b"

text \<open>
  A sequence of calls on one buffer, each \<open>append(item)\<close> or \<open>write(message)\<close>,
  run in order; the first exception ends the run.
\<close>

datatype buffer_call = Append py | Write string

fun call :: "environ \<Rightarrow> decoder \<Rightarrow> py SizedLogBuffer \<Rightarrow> buffer_call \<Rightarrow> (py_exception + unit) \<times> py SizedLogBuffer" where
  "call environ decode b (Append item) = append_buf environ b item"
| "call environ decode b (Write message) = write_buf environ decode b message"

fun calls :: "environ \<Rightarrow> decoder \<Rightarrow> py SizedLogBuffer \<Rightarrow> buffer_call list \<Rightarrow> (py_exception + unit) \<times> py SizedLogBuffer" where
  "calls environ decode b [] = (Inr (), b)"
| "calls environ decode b (c # cs) =
     (case call environ decode b c of
        (Inl e, b') \<Rightarrow> (Inl e, b')
      | (Inr u, b') \<Rightarrow> calls environ decode b' cs)"

text \<open>The entry a call appends, when its message decodes.\<close>

fun entry :: "decoder \<Rightarrow> buffer_call \<Rightarrow> py option" where
  "entry decode (Append item) = Some item"
| "entry decode (Write message) =
     (case decode message of Inl e \<Rightarrow> None | Inr (log_entry, epoch) \<Rightarrow> Some (log_item log_entry epoch))"

text \<open>The last \<open>n\<close> elements of a list, all of them when it has fewer.\<close>

definition last_n :: "nat \<Rightarrow> 'a list \<Rightarrow> 'a list" where
  "last_n n xs = drop (length xs - n) xs"

section \<open>Python operations on untyped values\<close>

text \<open>
  The adapter reads dictionaries of unknown shape with \<open>in\<close>, subscription, \<open>len\<close>,
  \<open>.get\<close>, truth tests and iteration. Each operation is given here for every value of
  type \<open>py\<close>, with the exception CPython raises where the operand has the wrong type.
  In a dict written as an association list the first binding of a key is the one that
  counts.
\<close>

definition type_name :: "py \<Rightarrow> string" where
  "type_name v =
     (case v of PNone \<Rightarrow> ''NoneType'' | PBool b \<Rightarrow> ''bool'' | PInt i \<Rightarrow> ''int''
      | PStr s \<Rightarrow> ''str'' | PList xs \<Rightarrow> ''list'' | PDict d \<Rightarrow> ''dict'')"

definition py_truthy :: "py \<Rightarrow> bool" where
  "py_truthy v =
     (case v of PNone \<Rightarrow> False | PBool b \<Rightarrow> b | PInt i \<Rightarrow> i \<noteq> 0
      | PStr s \<Rightarrow> s \<noteq> [] | PList xs \<Rightarrow> xs \<noteq> [] | PDict d \<Rightarrow> d \<noteq> [])"

fun starts_with :: "string \<Rightarrow> string \<Rightarrow> bool" where
  "starts_with [] s = True"
| "starts_with (k # ks) [] = False"
| "starts_with (k # ks) (c # cs) = (k = c \<and> starts_with ks cs)"

fun is_substring :: "string \<Rightarrow> string \<Rightarrow> bool" where
  "is_substring k [] = (k = [])"
| "is_substring k (c # cs) = (starts_with k (c # cs) \<or> is_substring k cs)"

text \<open>\<open>key in v\<close> for a string \<open>key\<close>.\<close>

definition py_contains :: "string \<Rightarrow> py \<Rightarrow> py_exception + bool" where
  "py_contains key v =
     (case v of
        PDict d \<Rightarrow> Inr (map_of d key \<noteq> None)
      | PList xs \<Rightarrow> Inr (PStr key \<in> set xs)
      | PStr s \<Rightarrow> Inr (is_substring key s)
      | _ \<Rightarrow> Inl (PyException TypeError
                 (''argument of type '' @ quoted (type_name v) @ '' is not iterable'')))"

text \<open>\<open>v[key]\<close> for a string \<open>key\<close>.\<close>

definition py_getitem :: "py \<Rightarrow> string \<Rightarrow> py_exception + py" where
  "py_getitem v key =
     (case v of
        PDict d \<Rightarrow>
          (case map_of d key of
             None \<Rightarrow> Inl (PyException KeyError (quoted key))
           | Some x \<Rightarrow> Inr x)
      | PList xs \<Rightarrow> Inl (PyException TypeError ''list indices must be integers or slices, not str'')
      | PStr s \<Rightarrow> Inl (PyException TypeError (''string indices must be integers, not '' @ quoted ''str''))
      | _ \<Rightarrow> Inl (PyException TypeError
                 (quoted (type_name v) @ '' object is not subscriptable'')))"

text \<open>\<open>v[0]\<close>.\<close>

definition py_getitem0 :: "py \<Rightarrow> py_exception + py" where
  "py_getitem0 v =
     (case v of
        PList xs \<Rightarrow>
          (case xs of [] \<Rightarrow> Inl (PyException IndexError ''list index out of range'')
           | x # rest \<Rightarrow> Inr x)
      | PStr s \<Rightarrow>
          (case s of [] \<Rightarrow> Inl (PyException IndexError ''string index out of range'')
           | c # rest \<Rightarrow> Inr (PStr [c]))
      | PDict d \<Rightarrow> Inl (PyException KeyError ''0'')
      | _ \<Rightarrow> Inl (PyException TypeError
                 (quoted (type_name v) @ '' object is not subscriptable'')))"

definition py_len :: "py \<Rightarrow> py_exception + nat" where
  "py_len v =
     (case v of
        PList xs \<Rightarrow> Inr (length xs)
      | PStr s \<Rightarrow> Inr (length s)
      | PDict d \<Rightarrow> Inr (length (remdups (map fst d)))
      | _ \<Rightarrow> Inl (PyException TypeError
                 (''object of type '' @ quoted (type_name v) @ '' has no len()'')))"

text \<open>\<open>v.get(key, default)\<close>: only a dict has the method.\<close>

definition py_get :: "py \<Rightarrow> string \<Rightarrow> py \<Rightarrow> py_exception + py" where
  "py_get v key dflt =
     (case v of
        PDict d \<Rightarrow> Inr (case map_of d key of None \<Rightarrow> dflt | Some x \<Rightarrow> x)
      | _ \<Rightarrow> Inl (PyException AttributeError
                 (quoted (type_name v) @ '' object has no attribute '' @ quoted ''get'')))"

text \<open>The items \<open>for x in v\<close> visits.\<close>

definition py_iter :: "py \<Rightarrow> py_exception + py list" where
  "py_iter v =
     (case v of
        PList xs \<Rightarrow> Inr xs
      | PStr s \<Rightarrow> Inr (map (\<lambda>c. PStr [c]) s)
      | PDict d \<Rightarrow> Inr (map PStr (remdups (map fst d)))
      | _ \<Rightarrow> Inl (PyException TypeError
                 (quoted (type_name v) @ '' object is not iterable'')))"

text \<open>
  \<open>str.split()\<close> without arguments: the maximal runs of characters that are not
  whitespace. Below code point 256 the whitespace characters are 9 to 13, 28 to 32,
  133 and 160.
\<close>

definition is_space :: "char \<Rightarrow> bool" where
  "is_space c = ((of_char c :: nat) \<in> {9, 10, 11, 12, 13, 28, 29, 30, 31, 32, 133, 160})"

fun split_from :: "string \<Rightarrow> string \<Rightarrow> string list" where
  "split_from cur [] = (if cur = [] then [] else [cur])"
| "split_from cur (c # cs) =
     (if is_space c then (if cur = [] then split_from [] cs else cur # split_from [] cs)
      else split_from (cur @ [c]) cs)"

definition str_split :: "string \<Rightarrow> string list" where
  "str_split s = split_from [] s"

text \<open>\<open>v.split()\<close> on an untyped value: only a str has the method.\<close>

definition py_split :: "py \<Rightarrow> py_exception + string list" where
  "py_split v =
     (case v of
        PStr s \<Rightarrow> Inr (str_split s)
      | _ \<Rightarrow> Inl (PyException AttributeError
                 (quoted (type_name v) @ '' object has no attribute '' @ quoted ''split'')))"

text \<open>Sequencing of fallible steps: the first exception ends the computation.\<close>

definition on_ok :: "'e + 'a \<Rightarrow> ('a \<Rightarrow> 'e + 'b) \<Rightarrow> 'e + 'b" where
  "on_ok r f = (case r of Inl e \<Rightarrow> Inl e | Inr x \<Rightarrow> f x)"

section \<open>Compact JSON, as \<open>model_dump_json\<close> prints it\<close>

text \<open>
  The stream frames carry the JSON text pydantic's \<open>model_dump_json()\<close> produces:
  no spaces, fields in declaration order, strings escaped by the JSON rules.
\<close>

definition hex_digit :: "nat \<Rightarrow> char" where
  "hex_digit n = (if n < 10 then char_of (48 + n) else char_of (87 + n))"

definition json_escape_char :: "char \<Rightarrow> string" where
  "json_escape_char c =
     (if c = CHR 0x22 then [CHR 0x5C, CHR 0x22]
      else if c = CHR 0x5C then [CHR 0x5C, CHR 0x5C]
      else if c = CHR 0x08 then [CHR 0x5C, CHR ''b'']
      else if c = CHR 0x0C then [CHR 0x5C, CHR ''f'']
      else if c = CHR 0x0A then [CHR 0x5C, CHR ''n'']
      else if c = CHR 0x0D then [CHR 0x5C, CHR ''r'']
      else if c = CHR 0x09 then [CHR 0x5C, CHR ''t'']
      else if (of_char c :: nat) < 32 then
        [CHR 0x5C, CHR ''u'', CHR ''0'', CHR ''0'',
         hex_digit ((of_char c :: nat) div 16), hex_digit ((of_char c :: nat) mod 16)]
      else [c])"

definition json_string :: "string \<Rightarrow> string" where
  "json_string s = [CHR 0x22] @ concat (map json_escape_char s) @ [CHR 0x22]"

definition int_digits :: "int \<Rightarrow> string" where
  "int_digits i = (if i < 0 then CHR ''-'' # nat_digits (nat (- i)) else nat_digits (nat i))"

fun join :: "string \<Rightarrow> string list \<Rightarrow> string" where
  "join sep [] = []"
| "join sep [x] = x"
| "join sep (x # y # rest) = x @ sep @ join sep (y # rest)"

primrec json :: "py \<Rightarrow> string" where
  "json PNone = ''null''"
| "json (PBool b) = (if b then ''true'' else ''false'')"
| "json (PInt i) = int_digits i"
| "json (PStr s) = json_string s"
| "json (PList xs) = ''['' @ join '','' (map json xs) @ '']''"
| "json (PDict d) =
     ''{'' @ join '','' (map (\<lambda>(k, j). json_string k @ '':'' @ j) (map (map_prod id json) d)) @ ''}''"

section \<open>schema/openai_responses_schemas.py\<close>

text \<open>
  The pydantic models, with the fields the adapter reads or writes. The sampling fields of
  the request (temperature, top_p, the penalties, max_tokens, stop, user) are accepted
  and never read by the adapter; they are left out. Field names carry a prefix where two
  models share a name.
\<close>

datatype role = System | User | Assistant

record OpenAIMessage =
  role :: role
  content :: string

record OpenAIResponsesRequest =
  model :: string
  messages :: "OpenAIMessage list"
  stream :: bool
  session_id :: "string option"
  tweaks :: "py option"

record OpenAIResponsesResponse =
  resp_id :: string
  resp_object :: string
  resp_created :: int
  resp_model :: string
  resp_choices :: "py list"
  resp_usage :: "py option"
  resp_system_fingerprint :: "string option"

record OpenAIResponsesStreamChunk =
  chunk_id :: string
  chunk_object :: string
  chunk_created :: int
  chunk_model :: string
  chunk_choices :: "py list"
  chunk_system_fingerprint :: "string option"

record OpenAIErrorResponse =
  error :: py

definition opt_str :: "string option \<Rightarrow> py" where
  "opt_str x = (case x of None \<Rightarrow> PNone | Some s \<Rightarrow> PStr s)"

definition chunk_model_dump :: "OpenAIResponsesStreamChunk \<Rightarrow> py" where
  "chunk_model_dump ch =
     PDict [(''id'', PStr (chunk_id ch)), (''object'', PStr (chunk_object ch)),
            (''created'', PInt (chunk_created ch)), (''model'', PStr (chunk_model ch)),
            (''choices'', PList (chunk_choices ch)),
            (''system_fingerprint'', opt_str (chunk_system_fingerprint ch))]"

definition error_model_dump :: "OpenAIErrorResponse \<Rightarrow> py" where
  "error_model_dump er = PDict [(''error'', error er)]"

section \<open>api/v1/openai_responses.py\<close>

subsection \<open>has_chat_input, has_chat_output\<close>

text \<open>
  The generator expression inside \<open>any(...)\<close> (lines 38 and 46): for each node in turn
  \<open>node.get("data", {}).get("type") in tags\<close>; \<open>any\<close> stops at the first true
  item, and an exception raised at a node reached before that ends the call.
\<close>

definition node_type :: "py \<Rightarrow> py_exception + py" where
  "node_type node = on_ok (py_get node ''data'' (PDict [])) (\<lambda>d. py_get d ''type'' PNone)"

fun any_type_in :: "string list \<Rightarrow> py list \<Rightarrow> py_exception + bool" where
  "any_type_in tags [] = Inr False"
| "any_type_in tags (node # rest) =
     on_ok (node_type node) (\<lambda>t. if t \<in> set (map PStr tags) then Inr True else any_type_in tags rest)"

definition has_chat_input :: "py \<Rightarrow> py_exception + bool" where
  "has_chat_input flow_data =
     (if \<not> py_truthy flow_data then Inr False
      else on_ok (py_contains ''nodes'' flow_data) (\<lambda>present.
        if \<not> present then Inr False
        else on_ok (py_getitem flow_data ''nodes'') (\<lambda>nodes.
          on_ok (py_iter nodes) (\<lambda>ns. any_type_in [''ChatInput'', ''Chat Input''] ns))))"

definition has_chat_output :: "py \<Rightarrow> py_exception + bool" where
  "has_chat_output flow_data =
     (if \<not> py_truthy flow_data then Inr False
      else on_ok (py_contains ''nodes'' flow_data) (\<lambda>present.
        if \<not> present then Inr False
        else on_ok (py_getitem flow_data ''nodes'') (\<lambda>nodes.
          on_ok (py_iter nodes) (\<lambda>ns. any_type_in [''ChatOutput'', ''Chat Output''] ns))))"

subsection \<open>create_openai_error\<close>

definition create_openai_error :: "string \<Rightarrow> OpenAIErrorResponse" where
  "create_openai_error error_message =
     \<lparr>error = PDict [(''message'', PStr error_message), (''type'', PStr ''invalid_request_error''),
                     (''param'', PNone), (''code'', PNone)]\<rparr>"

subsection \<open>The collaborators and the state of a request\<close>

text \<open>
  The adapter calls code that is not part of these files: the flow lookup, the two flow
  executors, \<open>uuid.uuid4\<close> and \<open>time.time\<close>. They are parameters, collected in
  the record \<open>collab\<close>. What a handler can raise is an HTTPException, with its status
  code and detail, or any other Exception. A collaborator that fails inside a
  \<open>try\<close> whose handler only reads \<open>str(e)\<close> is given by that exception's text.

  A run of an asynchronous generator is given whole: the chunks it yields, then either
  its normal end or the exception it raises. Runs that never end are not represented,
  and neither are exceptions outside the class Exception (cancellation).
\<close>

record flow =
  flow_id :: string
  flow_name :: string
  data :: py

record SimplifiedAPIRequest =
  input_value :: string
  input_type :: string
  output_type :: string
  run_tweaks :: py
  run_session_id :: "string option"

record RunPayload =
  payload_flow_id :: string
  payload_flow_name :: string
  payload_user_id :: string

datatype raised = HTTPException nat py | Uncaught py_exception

datatype chunk_run = ChunkRun "string list" "py_exception option"

record collab =
  get_flow_by_id_or_endpoint_name :: "string \<Rightarrow> string \<Rightarrow> raised + flow option"
  simple_run_flow :: "flow \<Rightarrow> SimplifiedAPIRequest \<Rightarrow> string \<Rightarrow> py_exception + py"
  run_flow_generator :: "flow \<Rightarrow> SimplifiedAPIRequest \<Rightarrow> string \<Rightarrow> chunk_run"
  uuid_source :: "nat \<Rightarrow> string"
  clock :: "nat \<Rightarrow> int"

text \<open>
  The state a request changes: how many identifiers and timestamps have been drawn, the
  calls made to a flow executor (with their arguments, in order), and the background
  tasks scheduled. Calls of \<open>logger.error\<close> are not recorded.
\<close>

record world =
  uuid_draws :: nat
  clock_reads :: nat
  executions :: "(flow \<times> SimplifiedAPIRequest \<times> string) list"
  background_tasks :: "RunPayload list"

definition uuid4 :: "collab \<Rightarrow> world \<Rightarrow> string \<times> world" where
  "uuid4 c w = (uuid_source c (uuid_draws w), w\<lparr>uuid_draws := Suc (uuid_draws w)\<rparr>)"

definition time_now :: "collab \<Rightarrow> world \<Rightarrow> int \<times> world" where
  "time_now c w = (clock c (clock_reads w), w\<lparr>clock_reads := Suc (clock_reads w)\<rparr>)"

text \<open>
  The objects of the asynchronous protocol. Calling an \<open>async def\<close> function whose own
  body has no \<open>yield\<close> gives a coroutine object: the body has not run, and runs only
  when the coroutine is awaited. An asynchronous generator runs when it is iterated.
  \<open>async for\<close> asks its operand for \<open>__aiter__\<close>; a coroutine object has none, and
  the statement raises TypeError before the loop body runs once.
\<close>

datatype async_generator = AsyncGenerator "world \<Rightarrow> chunk_run \<times> world"

datatype flow_return = Dict py | Generator async_generator

datatype coroutine = Coroutine "world \<Rightarrow> (raised + flow_return) \<times> world"

datatype async_for_operand = OfCoroutine coroutine | OfGenerator async_generator

definition await :: "coroutine \<Rightarrow> world \<Rightarrow> (raised + flow_return) \<times> world" where
  "await co w = (case co of Coroutine body \<Rightarrow> body w)"

definition not_async_iterable :: py_exception where
  "not_async_iterable =
     PyException TypeError
       (quoted ''async for'' @ '' requires an object with __aiter__ method, got coroutine'')"

text \<open>
  What an \<open>async for\<close> statement sees of its operand: the run of the generator, or for
  a coroutine object no item and the TypeError.
\<close>

definition async_for :: "async_for_operand \<Rightarrow> world \<Rightarrow> chunk_run \<times> world" where
  "async_for operand w =
     (case operand of
        OfGenerator g \<Rightarrow> (case g of AsyncGenerator run \<Rightarrow> run w)
      | OfCoroutine co \<Rightarrow> (ChunkRun [] (Some not_async_iterable), w))"

subsection \<open>run_flow_for_openai_responses\<close>

text \<open>
  The nested \<open>stream_generator\<close> (lines 70 to 77) is an asynchronous generator: when it
  is iterated it starts \<open>run_flow_generator\<close>, which is the flow execution, and passes on
  the chunks that are not empty.
\<close>

definition stream_generator :: "collab \<Rightarrow> flow \<Rightarrow> SimplifiedAPIRequest \<Rightarrow> string \<Rightarrow> async_generator" where
  "stream_generator c fl request user_id =
     AsyncGenerator (\<lambda>w.
       (case run_flow_generator c fl request user_id of
          ChunkRun chunks ending \<Rightarrow>
            (ChunkRun (filter (\<lambda>chunk. chunk \<noteq> []) chunks) ending,
             w\<lparr>executions := executions w @ [(fl, request, user_id)]\<rparr>)))"

text \<open>
  \<open>run_flow_for_openai_responses\<close> is declared \<open>async def\<close> and its own body has no
  \<open>yield\<close>, so a call gives a coroutine; the function below is that call, and the
  coroutine's body is lines 58 to 90; \<open>simplified_request\<close> is the request it builds
  (lines 60 to 66, where \<open>tweaks or {}\<close> replaces a missing or empty \<open>tweaks\<close>).
  With \<open>stream\<close> set the body returns the generator without starting it; otherwise it
  awaits \<open>simple_run_flow\<close>, and an exception of that call becomes an HTTPException
  with status 500 and \<open>str(e)\<close> as detail.
\<close>

definition simplified_request :: "string \<Rightarrow> string option \<Rightarrow> py option \<Rightarrow> SimplifiedAPIRequest" where
  "simplified_request message sid tw =
     \<lparr>input_value = message, input_type = ''chat'', output_type = ''chat'',
      run_tweaks = (case tw of None \<Rightarrow> PDict []
                    | Some t \<Rightarrow> if py_truthy t then t else PDict []),
      run_session_id = sid\<rparr>"

definition run_flow_for_openai_responses ::
  "collab \<Rightarrow> flow \<Rightarrow> string \<Rightarrow> string \<Rightarrow> string option \<Rightarrow> py option \<Rightarrow> bool \<Rightarrow> coroutine" where
  "run_flow_for_openai_responses c fl message user_id sid tw strm =
     Coroutine (\<lambda>w.
       (let request = simplified_request message sid tw
        in if strm then (Inr (Generator (stream_generator c fl request user_id)), w)
           else (case simple_run_flow c fl request user_id of
                   Inl e \<Rightarrow>
                     (Inl (HTTPException 500 (PStr (str_exc e))),
                      w\<lparr>executions := executions w @ [(fl, request, user_id)]\<rparr>)
                 | Inr result \<Rightarrow>
                     (Inr (Dict result),
                      w\<lparr>executions := executions w @ [(fl, request, user_id)]\<rparr>))))"

subsection \<open>generate_stream\<close>

definition LF :: char where
  "LF = CHR 0x0A"

definition sse_frame :: "string \<Rightarrow> string" where
  "sse_frame payload = ''data: '' @ payload @ [LF, LF]"

definition done_frame :: string where
  "done_frame = ''data: [DONE]'' @ [LF, LF]"

definition openai_chunk :: "string \<Rightarrow> int \<Rightarrow> string \<Rightarrow> string \<Rightarrow> OpenAIResponsesStreamChunk" where
  "openai_chunk uid t mdl chunk =
     \<lparr>chunk_id = ''chatcmpl-'' @ uid, chunk_object = ''chat.completion.chunk'',
      chunk_created = t, chunk_model = mdl,
      chunk_choices = [PDict [(''index'', PInt 0),
                              (''delta'', PDict [(''content'', PStr chunk)]),
                              (''finish_reason'', PNone)]],
      chunk_system_fingerprint = None\<rparr>"

definition final_chunk :: "string \<Rightarrow> int \<Rightarrow> string \<Rightarrow> OpenAIResponsesStreamChunk" where
  "final_chunk uid t mdl =
     \<lparr>chunk_id = ''chatcmpl-'' @ uid, chunk_object = ''chat.completion.chunk'',
      chunk_created = t, chunk_model = mdl,
      chunk_choices = [PDict [(''index'', PInt 0),
                              (''delta'', PDict []),
                              (''finish_reason'', PStr ''stop'')]],
      chunk_system_fingerprint = None\<rparr>"

definition content_frame :: "string \<Rightarrow> int \<Rightarrow> string \<Rightarrow> string \<Rightarrow> string" where
  "content_frame uid t mdl chunk = sse_frame (json (chunk_model_dump (openai_chunk uid t mdl chunk)))"

definition stop_frame :: "string \<Rightarrow> int \<Rightarrow> string \<Rightarrow> string" where
  "stop_frame uid t mdl = sse_frame (json (chunk_model_dump (final_chunk uid t mdl)))"

definition error_frame :: "py_exception \<Rightarrow> string" where
  "error_frame e = sse_frame (json (error_model_dump (create_openai_error (str_exc e))))"

text \<open>
  The body of the \<open>async for\<close> loop (lines 166 to 179), run over the chunks the operand
  yields: a chunk that is not empty is wrapped with a new identifier and the current time
  and becomes one frame.
\<close>

fun stream_loop :: "collab \<Rightarrow> string \<Rightarrow> string list \<Rightarrow> world \<Rightarrow> string list \<times> world" where
  "stream_loop c mdl [] w = ([], w)"
| "stream_loop c mdl (chunk # rest) w =
     (if chunk \<noteq> [] then
        (case uuid4 c w of (uid, w1) \<Rightarrow>
         case time_now c w1 of (t, w2) \<Rightarrow>
         case stream_loop c mdl rest w2 of (frames, w3) \<Rightarrow>
           (content_frame uid t mdl chunk # frames, w3))
      else stream_loop c mdl rest w)"

text \<open>
  \<open>generate_stream_over\<close> is the body of \<open>generate_stream\<close> (lines 157 to 199) for a
  given operand of its \<open>async for\<close>: the frames the generator yields when it is
  consumed to its end. When the loop ends normally the final chunk and the terminator
  follow; when an exception is raised inside the \<open>try\<close>, the handler yields one
  error frame and the generator ends.
\<close>

definition generate_stream_over :: "collab \<Rightarrow> string \<Rightarrow> async_for_operand \<Rightarrow> world \<Rightarrow> string list \<times> world" where
  "generate_stream_over c mdl operand w =
     (case async_for operand w of
        (ChunkRun chunks ending, w1) \<Rightarrow>
          (case stream_loop c mdl chunks w1 of
             (frames, w2) \<Rightarrow>
               (case ending of
                  None \<Rightarrow>
                    (case uuid4 c w2 of (uid, w3) \<Rightarrow>
                     case time_now c w3 of (t, w4) \<Rightarrow>
                       (frames @ [stop_frame uid t mdl, done_frame], w4))
                | Some e \<Rightarrow> (frames @ [error_frame e], w2))))"

text \<open>
  \<open>generate_stream\<close> as the source has it: the operand of the \<open>async for\<close> (line 158) is
  the call of \<open>run_flow_for_openai_responses\<close> itself, without \<open>await\<close>.
\<close>

definition generate_stream ::
  "collab \<Rightarrow> OpenAIResponsesRequest \<Rightarrow> flow \<Rightarrow> string \<Rightarrow> string \<Rightarrow> string \<Rightarrow> world \<Rightarrow> string list \<times> world" where
  "generate_stream c request fl user_id message_content sid w =
     generate_stream_over c (model request)
       (OfCoroutine (run_flow_for_openai_responses c fl message_content user_id (Some sid)
          (tweaks request) True)) w"

subsection \<open>openai_chat_completions\<close>

text \<open>Lines 221 to 236: the defensive walk through the result of a run.\<close>

definition is_dict :: "py \<Rightarrow> bool" where
  "is_dict v = (case v of PDict d \<Rightarrow> True | _ \<Rightarrow> False)"

definition extract_response_content :: "flow_return \<Rightarrow> py_exception + py" where
  "extract_response_content ret =
     (case ret of
        Generator g \<Rightarrow> Inr (PStr [])
      | Dict result \<Rightarrow>
          if \<not> is_dict result then Inr (PStr [])
          else on_ok (py_contains ''outputs'' result) (\<lambda>has_outputs.
            if \<not> has_outputs then Inr (PStr [])
            else on_ok (py_getitem result ''outputs'') (\<lambda>outputs.
              if \<not> py_truthy outputs then Inr (PStr [])
              else on_ok (py_len outputs) (\<lambda>n.
                if \<not> n > 0 then Inr (PStr [])
                else on_ok (py_getitem0 outputs) (\<lambda>first_output.
                  on_ok (py_contains ''outputs'' first_output) (\<lambda>has_inner.
                    if \<not> has_inner then Inr (PStr [])
                    else on_ok (py_getitem first_output ''outputs'') (\<lambda>output_data.
                      if \<not> py_truthy output_data then Inr (PStr [])
                      else on_ok (py_len output_data) (\<lambda>m.
                        if \<not> m > 0 then Inr (PStr [])
                        else on_ok (py_getitem0 output_data) (\<lambda>first_data.
                          on_ok (py_contains ''results'' first_data) (\<lambda>has_results.
                            if \<not> has_results then Inr (PStr [])
                            else on_ok (py_getitem first_data ''results'') (\<lambda>results.
                              on_ok (py_contains ''message'' results) (\<lambda>has_message.
                                if \<not> has_message then Inr (PStr [])
                                else on_ok (py_getitem results ''message'') (\<lambda>msg.
                                  py_get msg ''text'' (PStr []))))))))))))))"

datatype response = Completion OpenAIResponsesResponse | StreamingResponse "string list"

text \<open>The one choice of a response (lines 244 to 251) and its usage (lines 252 to 256).\<close>

definition choice_with :: "py \<Rightarrow> py" where
  "choice_with response_content =
     PDict [(''index'', PInt 0),
            (''message'', PDict [(''role'', PStr ''assistant''), (''content'', response_content)]),
            (''finish_reason'', PStr ''stop'')]"

definition usage_of :: "nat \<Rightarrow> nat \<Rightarrow> py" where
  "usage_of prompt_words completion_words =
     PDict [(''prompt_tokens'', PInt (int prompt_words)),
            (''completion_tokens'', PInt (int completion_words)),
            (''total_tokens'', PInt (int prompt_words + int completion_words))]"

text \<open>
  Lines 211 to 259, the non-streaming branch: await the run, extract the content, build
  the response with the usage counted by \<open>split()\<close>.
\<close>

definition non_streaming ::
  "collab \<Rightarrow> OpenAIResponsesRequest \<Rightarrow> flow \<Rightarrow> string \<Rightarrow> string \<Rightarrow> string \<Rightarrow> world \<Rightarrow> (raised + response) \<times> world" where
  "non_streaming c request fl user_id message_content sid w =
     (case await (run_flow_for_openai_responses c fl message_content user_id (Some sid)
                    (tweaks request) False) w of
        (Inl r, w1) \<Rightarrow> (Inl r, w1)
      | (Inr result, w1) \<Rightarrow>
          (case extract_response_content result of
             Inl e \<Rightarrow> (Inl (Uncaught e), w1)
           | Inr response_content \<Rightarrow>
               (case uuid4 c w1 of (uid, w2) \<Rightarrow>
                case time_now c w2 of (t, w3) \<Rightarrow>
                  (case py_split response_content of
                     Inl e \<Rightarrow> (Inl (Uncaught e), w3)
                   | Inr words \<Rightarrow>
                       (Inr (Completion
                          \<lparr>resp_id = ''chatcmpl-'' @ uid, resp_object = ''chat.completion'',
                           resp_created = t, resp_model = model request,
                           resp_choices = [choice_with response_content],
                           resp_usage = Some (usage_of (length (str_split message_content))
                                                       (length words)),
                           resp_system_fingerprint = None\<rparr>), w3)))))"

text \<open>
  Line 144, \<open>request.session_id or str(uuid.uuid4())\<close>: a missing or empty session id is
  replaced by a new identifier. Lines 147 to 152: the telemetry payload is scheduled as a
  background task.
\<close>

definition choose_session_id :: "collab \<Rightarrow> OpenAIResponsesRequest \<Rightarrow> world \<Rightarrow> string \<times> world" where
  "choose_session_id c request w =
     (case session_id request of
        None \<Rightarrow> uuid4 c w
      | Some s \<Rightarrow> if s \<noteq> [] then (s, w) else uuid4 c w)"

definition add_task :: "flow \<Rightarrow> string \<Rightarrow> world \<Rightarrow> world" where
  "add_task fl user_id w =
     w\<lparr>background_tasks := background_tasks w @
        [\<lparr>payload_flow_id = flow_id fl, payload_flow_name = flow_name fl,
          payload_user_id = user_id\<rparr>]\<rparr>"

text \<open>
  Lines 118 to 259, the body of the outer \<open>try\<close>. A streaming response is given by the
  frames its generator yields when the server consumes it to the end.
\<close>

definition handle_request ::
  "collab \<Rightarrow> OpenAIResponsesRequest \<Rightarrow> string \<Rightarrow> world \<Rightarrow> (raised + response) \<times> world" where
  "handle_request c request user_id w =
     (case get_flow_by_id_or_endpoint_name c (model request) user_id of
        Inl r \<Rightarrow> (Inl r, w)
      | Inr None \<Rightarrow>
          (Inl (HTTPException 404 (error_model_dump (create_openai_error
                  (''Flow '' @ quoted (model request) @ '' not found'')))), w)
      | Inr (Some fl) \<Rightarrow>
          (case has_chat_input (data fl) of
             Inl e \<Rightarrow> (Inl (Uncaught e), w)
           | Inr has_in \<Rightarrow>
               (case (if \<not> has_in then Inr True
                      else on_ok (has_chat_output (data fl)) (\<lambda>has_out. Inr (\<not> has_out))) of
                  Inl e \<Rightarrow> (Inl (Uncaught e), w)
                | Inr invalid \<Rightarrow>
                    if invalid then
                      (Inl (HTTPException 400 (error_model_dump (create_openai_error
                         ''Flow must have both ChatInput and ChatOutput components for OpenAI compatibility''))), w)
                    else if messages request = [] then
                      (Inl (HTTPException 400 (error_model_dump (create_openai_error
                         ''At least one message is required''))), w)
                    else
                      (let message_content = content (last (messages request)) in
                       case choose_session_id c request w of
                         (sid, w1) \<Rightarrow>
                           (let w2 = add_task fl user_id w1
                            in if stream request then
                                 (case generate_stream c request fl user_id message_content sid w2 of
                                    (frames, w3) \<Rightarrow> (Inr (StreamingResponse frames), w3))
                               else non_streaming c request fl user_id message_content sid w2)))))"

text \<open>
  The handlers of the outer \<open>try\<close> (lines 261 to 266): an HTTPException passes through,
  any other exception becomes status 500 with an error body.
\<close>

definition openai_chat_completions ::
  "collab \<Rightarrow> OpenAIResponsesRequest \<Rightarrow> string \<Rightarrow> world \<Rightarrow> (raised + response) \<times> world" where
  "openai_chat_completions c request user_id w =
     (case handle_request c request user_id w of
        (Inl (HTTPException status detail), w') \<Rightarrow> (Inl (HTTPException status detail), w')
      | (Inl (Uncaught e), w') \<Rightarrow>
          (Inl (HTTPException 500 (error_model_dump (create_openai_error
                  (''Internal server error: '' @ str_exc e)))), w')
      | (Inr r, w') \<Rightarrow> (Inr r, w'))"

section \<open>The specification's notions\<close>

text \<open>
  The specification names a path through the result of a run: outputs, first output,
  outputs, first entry, results, message, text. \<open>walk\<close> follows such a path in the
  specification's terms. A level is absent when the dict that should hold it lacks the
  key, or the list that should hold it has no first element. Where the value reached is
  neither the dict nor the list the next step needs (a null, a number, a string), the
  result is malformed: the levels below cannot be there, and no value was found either.
\<close>

datatype step = Key string | First

datatype walk_result = Found py | Absent | Malformed

fun walk :: "step list \<Rightarrow> py \<Rightarrow> walk_result" where
  "walk [] v = Found v"
| "walk (Key k # path) (PDict d) = (case map_of d k of None \<Rightarrow> Absent | Some x \<Rightarrow> walk path x)"
| "walk (First # path) (PList []) = Absent"
| "walk (First # path) (PList (x # xs)) = walk path x"
| "walk (s # path) v = Malformed"

definition content_path :: "step list" where
  "content_path = [Key ''outputs'', First, Key ''outputs'', First, Key ''results'', Key ''message'', Key ''text'']"

text \<open>The nested dictionary of the specification's example, around a text.\<close>

definition nested_result :: "py \<Rightarrow> py" where
  "nested_result text_value =
     PDict [(''outputs'', PList [PDict [(''outputs'', PList [PDict [(''results'',
       PDict [(''message'', PDict [(''text'', text_value)])])]])]])]"

text \<open>
  The number of words of a text in the specification's sense: the places where a
  character that is not whitespace follows the start of the text or a whitespace character.
\<close>

fun word_starts :: "bool \<Rightarrow> string \<Rightarrow> nat" where
  "word_starts after_space [] = 0"
| "word_starts after_space (c # cs) =
     (if is_space c then word_starts True cs
      else (if after_space then 1 else 0) + word_starts False cs)"

definition word_count :: "string \<Rightarrow> nat" where
  "word_count s = word_starts True s"

text \<open>
  The vertices of a persisted graph and their type tags, read from the graph data without
  the adapter's functions. The nodes of a graph are the elements of the list under
  "nodes"; graph data without such a list has none. The type tag of a node is the entry
  "type" of its "data", when the node is a dict, its "data" is a dict and the entry is
  there. A graph has a chat-input-capable vertex when a node carries one of the tags
  "ChatInput" and "Chat Input", and a chat-output-capable vertex when one carries
  "ChatOutput" or "Chat Output".

  Graph data is plain when it is None or a dict whose "nodes", when present, is a list
  of dicts the "data" of each of which, when present, is a dict.
\<close>

definition listed_nodes :: "py \<Rightarrow> py list" where
  "listed_nodes flow_data =
     (case flow_data of
        PDict d \<Rightarrow>
          (case map_of d ''nodes'' of
             None \<Rightarrow> []
           | Some nodes \<Rightarrow> (case nodes of PList ns \<Rightarrow> ns | _ \<Rightarrow> []))
      | _ \<Rightarrow> [])"

definition node_tag :: "py \<Rightarrow> py option" where
  "node_tag node =
     (case node of
        PDict nd \<Rightarrow>
          (case map_of nd ''data'' of
             None \<Rightarrow> None
           | Some dv \<Rightarrow> (case dv of PDict dd \<Rightarrow> map_of dd ''type'' | _ \<Rightarrow> None))
      | _ \<Rightarrow> None)"

definition plain_node :: "py \<Rightarrow> bool" where
  "plain_node node =
     (case node of
        PDict nd \<Rightarrow> (case map_of nd ''data'' of None \<Rightarrow> True | Some dv \<Rightarrow> is_dict dv)
      | _ \<Rightarrow> False)"

definition plain_graph :: "py \<Rightarrow> bool" where
  "plain_graph flow_data =
     (case flow_data of
        PNone \<Rightarrow> True
      | PDict d \<Rightarrow>
          (case map_of d ''nodes'' of
             None \<Rightarrow> True
           | Some nodes \<Rightarrow> (case nodes of PList ns \<Rightarrow> list_all plain_node ns | _ \<Rightarrow> False))
      | _ \<Rightarrow> False)"

definition has_vertex :: "string list \<Rightarrow> py list \<Rightarrow> bool" where
  "has_vertex tags ns =
     list_ex (\<lambda>node. case node_tag node of None \<Rightarrow> False | Some t \<Rightarrow> t \<in> set (map PStr tags)) ns"

definition chat_input_tags :: "string list" where
  "chat_input_tags = [''ChatInput'', ''Chat Input'']"

definition chat_output_tags :: "string list" where
  "chat_output_tags = [''ChatOutput'', ''Chat Output'']"

text \<open>
  Graph data without type tags, as claim C9 lists it: no data at all, a dict without
  the key "nodes", or a list of nodes each of which is a dict that lacks "data" or whose
  "data" is a dict that lacks "type".
\<close>

definition untagged_node :: "py \<Rightarrow> bool" where
  "untagged_node node =
     (case node of
        PDict nd \<Rightarrow>
          (case map_of nd ''data'' of
             None \<Rightarrow> True
           | Some dv \<Rightarrow> (case dv of PDict dd \<Rightarrow> map_of dd ''type'' = None | _ \<Rightarrow> False))
      | _ \<Rightarrow> False)"

definition untagged_graph :: "py \<Rightarrow> bool" where
  "untagged_graph flow_data =
     (case flow_data of
        PNone \<Rightarrow> True
      | PDict d \<Rightarrow>
          (case map_of d ''nodes'' of
             None \<Rightarrow> True
           | Some nodes \<Rightarrow> (case nodes of PList ns \<Rightarrow> list_all untagged_node ns | _ \<Rightarrow> False))
      | _ \<Rightarrow> False)"

text \<open>
  The content frames of a stream in the specification's terms: one frame for each chunk
  that is not empty, in the order of the chunks, the frame of the chunk at position
  \<open>i\<close> carrying the identifier and the time drawn \<open>i\<close> draws after the state \<open>w\<close>.
\<close>

definition content_frames :: "collab \<Rightarrow> string \<Rightarrow> world \<Rightarrow> string list \<Rightarrow> string list" where
  "content_frames c mdl w chunks =
     map (\<lambda>(i, chunk). content_frame (uuid_source c (uuid_draws w + i)) (clock c (clock_reads w + i)) mdl chunk)
         (enumerate 0 (filter (\<lambda>chunk. chunk \<noteq> []) chunks))"


section \<open>Example values\<close>

text \<open>
  A flow with one ChatInput and one ChatOutput node, collaborators that find it and run
  it with a given result or a given run of chunks, a request of two messages, and the
  state before a request.
\<close>

definition example_data :: py where
  "example_data =
     PDict [(''nodes'', PList [PDict [(''data'', PDict [(''type'', PStr ''ChatInput'')])],
                               PDict [(''data'', PDict [(''type'', PStr ''ChatOutput'')])]])]"

definition example_flow :: "py \<Rightarrow> flow" where
  "example_flow d = \<lparr>flow_id = ''f1'', flow_name = ''demo'', data = d\<rparr>"

definition example_collab :: "py \<Rightarrow> py \<Rightarrow> chunk_run \<Rightarrow> collab" where
  "example_collab d result run =
     \<lparr>get_flow_by_id_or_endpoint_name = (\<lambda>m u. Inr (Some (example_flow d))),
      simple_run_flow = (\<lambda>f r u. Inr result),
      run_flow_generator = (\<lambda>f r u. run),
      uuid_source = (\<lambda>n. ''id'' @ nat_digits n),
      clock = (\<lambda>n. 1700000000 + int n)\<rparr>"


definition example_request :: "bool \<Rightarrow> string \<Rightarrow> OpenAIResponsesRequest" where
  "example_request strm txt =
     \<lparr>model = ''f1'',
      messages = [\<lparr>role = System, content = ''be brief''\<rparr>, \<lparr>role = User, content = txt\<rparr>],
      stream = strm, session_id = None, tweaks = None\<rparr>"

definition start :: world where
  "start = \<lparr>uuid_draws = 0, clock_reads = 0, executions = [], background_tasks = []\<rparr>"

section \<open>Named parts of the content walk\<close>




section \<open>Properties of the log buffer\<close>

lemma max_get_buffer:
  "max_get environ b = (r, b') \<Longrightarrow> buffer b' = buffer b"
  by (auto simp: max_get_def Let_def split: if_splits sum.splits)

lemma max_get_nonzero:
  "max_get environ b = (Inr m, b') \<Longrightarrow> m \<noteq> 0 \<Longrightarrow> p_max b' = m"
  by (auto simp: max_get_def Let_def split: if_splits sum.splits)

lemma max_get_stable:
  "p_max b \<noteq> 0 \<Longrightarrow> max_get environ b = (Inr (p_max b), b)"
  by (simp add: max_get_def)

lemma max_get_unset:
  "p_max b = 0 \<Longrightarrow> environ ''AXIESTUDIO_LOG_RETRIEVER_BUFFER_SIZE'' = None \<Longrightarrow>
   max_get environ b = (Inr 0, b)"
  by (simp add: max_get_def getenv_def isdigit_def is_digit_char_def is_decimal_char_def
      py_int_def digits_value_def)

lemma append_buf_step:
  assumes "fst (max_get environ b) = Inr (int N)" and "0 < N" and "length (buffer b) \<le> N"
  shows "\<exists>b'. append_buf environ b item = (Inr (), b') \<and> p_max b' = int N \<and>
           buffer b' = (if length (buffer b) = N then tl (buffer b) @ [item] else buffer b @ [item])"
proof -
  obtain b1 where m: "max_get environ b = (Inr (int N), b1)"
    using assms(1) by (cases "max_get environ b") auto
  have b1: "buffer b1 = buffer b" "p_max b1 = int N"
    using max_get_buffer [OF m] max_get_nonzero [OF m] assms(2) by auto
  show ?thesis
  proof (cases "buffer b")
    case Nil
    then show ?thesis using m b1 assms(2) by (simp add: append_buf_def)
  next
    case (Cons x rest)
    then show ?thesis using m b1 assms(2,3) by (auto simp: append_buf_def deque_popleft_def)
  qed
qed

lemma write_buf_append_buf:
  "decode message = Inr (log_entry, epoch) \<Longrightarrow>
   write_buf environ decode b message = append_buf environ b (log_item log_entry epoch)"
  by (simp add: write_buf_def append_buf_def)

lemma call_step:
  assumes "fst (max_get environ b) = Inr (int N)" and "0 < N" and "length (buffer b) \<le> N"
    and "entry decode c = Some item"
  shows "\<exists>b'. call environ decode b c = (Inr (), b') \<and> p_max b' = int N \<and>
           buffer b' = (if length (buffer b) = N then tl (buffer b) @ [item] else buffer b @ [item])"
proof (cases c)
  case (Append x)
  then show ?thesis using assms append_buf_step [OF assms(1-3), of item] by simp
next
  case (Write message)
  then obtain t e where d: "decode message = Inr (t, e)" "item = log_item t e"
    using assms(4) by (auto split: sum.splits)
  have "write_buf environ decode b message = append_buf environ b item"
    using d by (simp add: write_buf_append_buf)
  then show ?thesis using Write append_buf_step [OF assms(1-3), of item]
    by simp
qed

lemma last_n_step:
  "0 < N \<Longrightarrow>
   (if length (last_n N xs) = N then tl (last_n N xs) @ [x] else last_n N xs @ [x]) = last_n N (xs @ [x])"
  by (auto simp: last_n_def drop_Suc [symmetric] tl_drop Suc_diff_le)

lemma calls_ring:
  assumes "0 < N"
  shows "fst (max_get environ b) = Inr (int N) \<Longrightarrow> buffer b = last_n N pre \<Longrightarrow>
     \<forall>c\<in>set cs. entry decode c \<noteq> None \<Longrightarrow>
     \<exists>b'. calls environ decode b cs = (Inr (), b') \<and>
          buffer b' = last_n N (pre @ List.map_filter (entry decode) cs)"
proof (induction cs arbitrary: b pre)
  case Nil
  then show ?case by simp
next
  case (Cons c cs)
  from Cons.prems(3) obtain item where it: "entry decode c = Some item" by auto
  have len: "length (buffer b) \<le> N" using Cons.prems(2) by (simp add: last_n_def)
  obtain b1 where b1: "call environ decode b c = (Inr (), b1)" "p_max b1 = int N"
     "buffer b1 = (if length (buffer b) = N then tl (buffer b) @ [item] else buffer b @ [item])"
    using call_step [OF Cons.prems(1) assms len it] by blast
  have eff: "fst (max_get environ b1) = Inr (int N)"
    using max_get_stable [of b1 environ] b1(2) assms by simp
  have "buffer b1 = (if length (last_n N pre) = N then tl (last_n N pre) @ [item] else last_n N pre @ [item])"
    using b1(3) Cons.prems(2) by simp
  then have buf: "buffer b1 = last_n N ((pre @ [item]))"
    by (simp only: last_n_step [OF assms])
  obtain b' where "calls environ decode b1 cs = (Inr (), b')"
     "buffer b' = last_n N ((pre @ [item]) @ List.map_filter (entry decode) cs)"
    using Cons.IH [OF eff buf] Cons.prems(3) by auto
  then show ?case using b1(1) it by simp
qed

lemma map_filter_length:
  "\<forall>c\<in>set cs. f c \<noteq> None \<Longrightarrow> length (List.map_filter f cs) = length cs"
  by (induction cs) auto

text \<open>
  Claim C7, as amended. Let the capacity \<open>N\<close> be at least 1, the buffer's effective
  \<open>max\<close> be \<open>N\<close>, and the buffer hold at most \<open>N\<close> entries (a new buffer holds
  none). Then every sequence of more than \<open>N\<close> calls of \<open>append\<close> and
  \<open>write\<close> (the messages written being decodable log records) runs without an
  exception and leaves exactly the \<open>N\<close> entries appended last, in the order they were
  appended; and a call on a full buffer drops the oldest entry, the one at the left end.
\<close>

theorem calls_keep_last_N:
  assumes "0 < N"
    and "fst (max_get environ b) = Inr (int N)"
    and "length (buffer b) \<le> N"
    and "\<forall>c\<in>set cs. entry decode c \<noteq> None"
    and "N < length cs"
  shows "(\<exists>b'. calls environ decode b cs = (Inr (), b') \<and>
            buffer b' = last_n N (List.map_filter (entry decode) cs) \<and>
            length (buffer b') = N) \<and>
         (length (buffer b) = N \<longrightarrow>
            (\<forall>item. \<exists>b'. append_buf environ b item = (Inr (), b') \<and>
               buffer b' = tl (buffer b) @ [item]))"
proof -
  have pre: "buffer b = last_n N (buffer b)"
    using assms(3) by (simp add: last_n_def)
  obtain b' where b': "calls environ decode b cs = (Inr (), b')"
     "buffer b' = last_n N (buffer b @ List.map_filter (entry decode) cs)"
    using calls_ring [OF assms(1,2) pre assms(4)] by blast
  have len: "length (List.map_filter (entry decode) cs) = length cs"
    using assms(4) by (rule map_filter_length)
  have "buffer b' = last_n N (List.map_filter (entry decode) cs)"
    using b'(2) len assms(5) by (simp add: last_n_def)
  moreover from this have "length (buffer b') = N"
    using len assms(5) by (simp add: last_n_def)
  moreover have "length (buffer b) = N \<longrightarrow>
      (\<forall>item. \<exists>b'. append_buf environ b item = (Inr (), b') \<and> buffer b' = tl (buffer b) @ [item])"
    using append_buf_step [OF assms(2,1,3)] by (metis (full_types))
  ultimately show ?thesis using b'(1) by blast
qed

text \<open>
  A run of the theorem: capacity 2, three calls; the first entry is gone, the other two
  remain in order.
\<close>

theorem calls_keep_last_N_witness:
  "(0::nat) < 2 \<and>
   fst (max_get (\<lambda>_. None) (max_set (init 20) 2 :: py SizedLogBuffer)) = Inr (int 2) \<and>
   length (buffer (max_set (init 20) 2 :: py SizedLogBuffer)) \<le> 2 \<and>
   list_all (\<lambda>c. entry (\<lambda>_. Inr (''t'', 5)) c \<noteq> None) [Append (PInt 1), Write ''m'', Append (PInt 3)] \<and>
   2 < length [Append (PInt 1), Write ''m'', Append (PInt 3)] \<and>
   calls (\<lambda>_. None) (\<lambda>_. Inr (''t'', 5)) (max_set (init 20) 2)
      [Append (PInt 1), Write ''m'', Append (PInt 3)] =
     (Inr (), \<lparr>buffer = [log_item ''t'' 5, PInt 3], max_readers = 20, p_max = 2\<rparr>) \<and>
   last_n 2 (List.map_filter (entry (\<lambda>_. Inr (''t'', 5))) [Append (PInt 1), Write ''m'', Append (PInt 3)])
     = [log_item ''t'' 5, PInt 3]"
proof -
  have h1: "(0::nat) < 2" by simp
  have h2: "fst (max_get (\<lambda>_. None) (max_set (init 20) 2 :: py SizedLogBuffer)) = Inr (int 2)"
    by (simp add: max_get_def max_set_def init_def)
  have h3: "length (buffer (max_set (init 20) 2 :: py SizedLogBuffer)) \<le> 2"
    by (simp add: max_set_def init_def)
  have h4: "\<forall>c\<in>set [Append (PInt 1), Write ''m'', Append (PInt 3)]. entry (\<lambda>_. Inr (''t'', 5)) c \<noteq> None"
    by simp
  have h5: "2 < length [Append (PInt 1), Write ''m'', Append (PInt 3)]" by simp
  have ev: "calls (\<lambda>_. None) (\<lambda>_. Inr (''t'', 5)) (max_set (init 20) 2)
      [Append (PInt 1), Write ''m'', Append (PInt 3)] =
     (Inr (), \<lparr>buffer = [log_item ''t'' 5, PInt 3], max_readers = 20, p_max = 2\<rparr>)"
    by (simp add: append_buf_def write_buf_def max_get_def max_set_def init_def deque_popleft_def)
  show ?thesis
    using calls_keep_last_N [OF h1 h2 h3 h4 h5] h2 h3 ev
    by (simp add: last_n_def)
qed

text \<open>
  Claim C7 as it is written fails in two ways. With capacity 0 (a new buffer while the
  environment variable is unset) the first \<open>append\<close> raises IndexError and nothing is
  stored. And a buffer whose \<open>max\<close> was lowered to 1 by the setter while it held two
  entries still holds two entries after two more appends.
\<close>

theorem calls_capacity_counterexample:
  "calls (\<lambda>_. None) (\<lambda>_. Inr (''t'', 5)) (init 20) [Append (PInt 1)] =
     (Inl (PyException IndexError ''pop from an empty deque''), init 20) \<and>
   calls (\<lambda>_. None) (\<lambda>_. Inr (''t'', 5))
      (max_set \<lparr>buffer = [PInt 1, PInt 2], max_readers = 20, p_max = 2\<rparr> 1)
      [Append (PInt 3), Append (PInt 4)] =
     (Inr (), \<lparr>buffer = [PInt 3, PInt 4], max_readers = 20, p_max = 1\<rparr>)"
  by (simp add: append_buf_def max_get_def max_set_def init_def deque_popleft_def getenv_def
      isdigit_def is_digit_char_def is_decimal_char_def py_int_def digits_value_def)

text \<open>
  Claim C10. When the effective \<open>max\<close> is 0 and the buffer is empty, \<open>append\<close>
  raises IndexError (\<open>popleft\<close> on the empty deque), and so does \<open>write\<close> for
  every message that decodes; when the effective \<open>max\<close> is positive, \<open>append\<close>
  returns normally.
\<close>

theorem append_buf_disabled_raises:
  assumes "fst (max_get environ b) = Inr m"
  shows "(m = 0 \<and> buffer b = [] \<longrightarrow>
           fst (append_buf environ b item) = Inl (PyException IndexError ''pop from an empty deque'') \<and>
           (\<forall>log_entry epoch. decode message = Inr (log_entry, epoch) \<longrightarrow>
              fst (write_buf environ decode b message) =
                Inl (PyException IndexError ''pop from an empty deque''))) \<and>
         (0 < m \<longrightarrow> fst (append_buf environ b item) = Inr ())"
proof -
  obtain b1 where m: "max_get environ b = (Inr m, b1)"
    using assms by (cases "max_get environ b") auto
  have b1: "buffer b1 = buffer b" using max_get_buffer [OF m] .
  have a: "m = 0 \<Longrightarrow> buffer b = [] \<Longrightarrow>
      fst (append_buf environ b x) = Inl (PyException IndexError ''pop from an empty deque'')" for x
    using m b1 by (simp add: append_buf_def deque_popleft_def)
  have w: "m = 0 \<Longrightarrow> buffer b = [] \<Longrightarrow> decode message = Inr (log_entry, epoch) \<Longrightarrow>
     fst (write_buf environ decode b message) = Inl (PyException IndexError ''pop from an empty deque'')"
    for log_entry epoch
    using a [of "log_item log_entry epoch"] by (simp add: write_buf_append_buf)
  have p: "0 < m \<Longrightarrow> fst (append_buf environ b item) = Inr ()"
    using m b1 by (cases "buffer b") (auto simp: append_buf_def deque_popleft_def)
  show ?thesis using a w p by blast
qed

theorem append_buf_disabled_raises_witness:
  "fst (max_get (\<lambda>_. None) (init 20 :: py SizedLogBuffer)) = Inr 0 \<and>
   buffer (init 20 :: py SizedLogBuffer) = [] \<and>
   fst (append_buf (\<lambda>_. None) (init 20) (PStr ''x'')) =
     Inl (PyException IndexError ''pop from an empty deque'') \<and>
   fst (write_buf (\<lambda>_. None) (\<lambda>_. Inr (''started'', 1700000000000)) (init 20) ''{}'') =
     Inl (PyException IndexError ''pop from an empty deque'')"
proof -
  have h: "fst (max_get (\<lambda>_. None) (init 20 :: py SizedLogBuffer)) = Inr 0"
    using max_get_unset [of "init 20 :: py SizedLogBuffer" "\<lambda>_. None"] by (simp add: init_def)
  show ?thesis
    using append_buf_disabled_raises [OF h, of "PStr ''x''" "\<lambda>_. Inr (''started'', 1700000000000)" "''{}''"] h
    by (simp add: init_def)
qed

section \<open>Properties of the adapter\<close>

subsection \<open>Validation of the flow\<close>

lemma on_ok_Inl: "on_ok (Inl e) f = Inl e"
  by (simp add: on_ok_def)

lemma on_ok_Inr: "on_ok (Inr x) f = f x"
  by (simp add: on_ok_def)

lemma on_ok_eq_Inr:
  "on_ok r f = Inr y \<longleftrightarrow> (\<exists>x. r = Inr x \<and> f x = Inr y)"
  by (cases r) (simp_all add: on_ok_def)

lemma any_type_in_False_total:
  "any_type_in tags ns = Inr False \<Longrightarrow> \<exists>b. any_type_in tags' ns = Inr b"
proof (induction ns)
  case Nil
  show ?case by (rule exI [of _ False]) simp
next
  case (Cons n ns)
  from Cons.prems obtain t where t: "node_type n = Inr t"
    by (cases "node_type n") (simp_all add: on_ok_def)
  from Cons.prems t have "any_type_in tags ns = Inr False"
    by (simp add: on_ok_Inr split: if_splits)
  then obtain b where b: "any_type_in tags' ns = Inr b" using Cons.IH by blast
  show ?case
  proof (cases "t \<in> set (map PStr tags')")
    case True
    then show ?thesis using t by (intro exI [of _ True]) (simp add: on_ok_Inr)
  next
    case False
    then show ?thesis using t b by (intro exI [of _ b]) (simp add: on_ok_Inr)
  qed
qed

lemma has_chat_output_False_input:
  assumes "has_chat_output d = Inr False"
  shows "\<exists>b. has_chat_input d = Inr b"
proof (cases "py_truthy d")
  case False
  then show ?thesis by (auto simp: has_chat_input_def)
next
  case True
  note tr = this
  show ?thesis
  proof (cases "py_contains ''nodes'' d")
    case (Inl e)
    then show ?thesis using tr assms by (simp add: has_chat_output_def on_ok_Inl)
  next
    case (Inr present)
    note pr = this
    show ?thesis
    proof (cases present)
      case False
      then show ?thesis using tr pr by (auto simp: has_chat_input_def on_ok_Inr)
    next
      case True
      note pt = this
      show ?thesis
      proof (cases "py_getitem d ''nodes''")
        case (Inl e)
        then show ?thesis using tr pr pt assms by (simp add: has_chat_output_def on_ok_Inl on_ok_Inr)
      next
        case (Inr nodes)
        note nd = this
        show ?thesis
        proof (cases "py_iter nodes")
          case (Inl e)
          then show ?thesis using tr pr pt nd assms
            by (simp add: has_chat_output_def on_ok_Inl on_ok_Inr)
        next
          case (Inr ns)
          then have "any_type_in [''ChatOutput'', ''Chat Output''] ns = Inr False"
            using tr pr pt nd assms by (simp add: has_chat_output_def on_ok_Inr)
          then obtain b where "any_type_in [''ChatInput'', ''Chat Input''] ns = Inr b"
            using any_type_in_False_total by blast
          then show ?thesis using tr pr pt nd Inr by (simp add: has_chat_input_def on_ok_Inr)
        qed
      qed
    qed
  qed
qed

lemma any_type_in_untagged:
  "list_all untagged_node ns \<Longrightarrow> any_type_in tags ns = Inr False"
proof (induction ns)
  case Nil
  then show ?case by simp
next
  case (Cons n ns)
  then have "untagged_node n" by simp
  then have "node_type n = Inr PNone"
    by (auto simp: untagged_node_def node_type_def py_get_def on_ok_def split: py.splits option.splits)
  then show ?case using Cons by (auto simp: on_ok_Inr)
qed

lemma untagged_has_chat:
  assumes "untagged_graph d"
  shows "has_chat_input d = Inr False" "has_chat_output d = Inr False"
  using assms
  by (auto simp: untagged_graph_def has_chat_input_def has_chat_output_def py_truthy_def
      py_contains_def py_getitem_def py_iter_def on_ok_Inr any_type_in_untagged
      split: py.splits option.splits)

lemma invalid_flow_bad_request:
  assumes "get_flow_by_id_or_endpoint_name c (model request) user_id = Inr (Some fl)"
    and "has_chat_input (data fl) = Inr False \<or> has_chat_output (data fl) = Inr False"
  shows "openai_chat_completions c request user_id w =
     (Inl (HTTPException 400
        (PDict [(''error'', PDict [(''message'',
            PStr ''Flow must have both ChatInput and ChatOutput components for OpenAI compatibility''),
          (''type'', PStr ''invalid_request_error''), (''param'', PNone), (''code'', PNone)])])), w)"
proof -
  from assms(2) obtain b where b: "has_chat_input (data fl) = Inr b"
    and inv: "b \<longrightarrow> has_chat_output (data fl) = Inr False"
    using has_chat_output_False_input by auto
  have "handle_request c request user_id w =
     (Inl (HTTPException 400
        (PDict [(''error'', PDict [(''message'',
            PStr ''Flow must have both ChatInput and ChatOutput components for OpenAI compatibility''),
          (''type'', PStr ''invalid_request_error''), (''param'', PNone), (''code'', PNone)])])), w)"
    using assms(1) b inv
    by (cases b) (simp_all add: handle_request_def on_ok_Inr
        error_model_dump_def create_openai_error_def)
  then show ?thesis by (simp add: openai_chat_completions_def)
qed

lemma node_type_plain:
  "plain_node n \<Longrightarrow> node_type n = Inr (case node_tag n of None \<Rightarrow> PNone | Some t \<Rightarrow> t)"
  by (auto simp: plain_node_def node_type_def node_tag_def py_get_def on_ok_def is_dict_def
      split: py.splits option.splits)

lemma any_type_in_plain:
  "list_all plain_node ns \<Longrightarrow> any_type_in tags ns = Inr (has_vertex tags ns)"
proof (induction ns)
  case Nil
  show ?case by (simp add: has_vertex_def)
next
  case (Cons n ns)
  then have p: "plain_node n" and rest: "any_type_in tags ns = Inr (has_vertex tags ns)"
    by simp_all
  show ?case
    using node_type_plain [OF p] rest
    by (auto simp: on_ok_Inr has_vertex_def split: option.splits)
qed

lemma node_type_tag:
  assumes "node_type n = Inr t" and "t \<in> set (map PStr tags)"
  shows "node_tag n = Some t"
  using assms
  by (auto simp: node_type_def node_tag_def py_get_def on_ok_def
      split: py.splits option.splits)

lemma any_type_in_True:
  "any_type_in tags ns = Inr True \<Longrightarrow> has_vertex tags ns"
proof (induction ns)
  case Nil
  then show ?case by simp
next
  case (Cons n ns)
  from Cons.prems obtain t where t: "node_type n = Inr t"
    by (cases "node_type n") (simp_all add: on_ok_def)
  show ?case
  proof (cases "t \<in> set (map PStr tags)")
    case True
    then have "node_tag n = Some t" using t by (rule node_type_tag [rotated])
    then show ?thesis using True by (simp add: has_vertex_def)
  next
    case False
    then have "any_type_in tags ns = Inr True" using Cons.prems t by (simp add: on_ok_Inr)
    then have "has_vertex tags ns" by (rule Cons.IH)
    then show ?thesis by (simp add: has_vertex_def)
  qed
qed

lemma any_type_in_strings:
  "any_type_in tags (map PStr xs) \<noteq> Inr True"
  by (cases xs) (simp_all add: node_type_def py_get_def on_ok_def)

lemma detector_True_vertex:
  assumes "on_ok (py_contains ''nodes'' d) (\<lambda>present.
        if \<not> present then Inr False
        else on_ok (py_getitem d ''nodes'') (\<lambda>nodes.
          on_ok (py_iter nodes) (\<lambda>ns. any_type_in tags ns))) = Inr True"
  shows "has_vertex tags (listed_nodes d)"
proof (cases d)
  case (PDict dd)
  show ?thesis
  proof (cases "map_of dd ''nodes''")
    case None
    then show ?thesis using assms PDict by (simp add: py_contains_def on_ok_def)
  next
    case (Some nodes)
    then have it: "on_ok (py_iter nodes) (\<lambda>ns. any_type_in tags ns) = Inr True"
      using assms PDict by (simp add: py_contains_def py_getitem_def on_ok_def)
    show ?thesis
    proof (cases nodes)
      case (PList ns)
      then have "any_type_in tags ns = Inr True" using it by (simp add: py_iter_def on_ok_def)
      then have "has_vertex tags ns" by (rule any_type_in_True)
      then show ?thesis using PDict Some PList by (simp add: listed_nodes_def)
    next
      case (PStr x)
      then show ?thesis using it any_type_in_strings [of tags "map (\<lambda>c. [c]) x"]
        by (simp add: py_iter_def on_ok_def comp_def)
    next
      case (PDict x)
      then show ?thesis using it any_type_in_strings [of tags "remdups (map fst x)"]
        by (simp add: py_iter_def on_ok_def)
    qed (use it in \<open>simp_all add: py_iter_def on_ok_def\<close>)
  qed
qed (use assms in \<open>auto simp: py_contains_def py_getitem_def on_ok_def split: if_splits\<close>)

lemma has_chat_input_True_vertex:
  "has_chat_input d = Inr True \<Longrightarrow> has_vertex chat_input_tags (listed_nodes d)"
  unfolding has_chat_input_def chat_input_tags_def
  by (cases "py_truthy d") (simp_all add: detector_True_vertex)

lemma has_chat_output_True_vertex:
  "has_chat_output d = Inr True \<Longrightarrow> has_vertex chat_output_tags (listed_nodes d)"
  unfolding has_chat_output_def chat_output_tags_def
  by (cases "py_truthy d") (simp_all add: detector_True_vertex)

lemma plain_graph_detectors:
  assumes "plain_graph d"
  shows "has_chat_input d = Inr (has_vertex chat_input_tags (listed_nodes d))"
    and "has_chat_output d = Inr (has_vertex chat_output_tags (listed_nodes d))"
  using assms
  by (auto simp: plain_graph_def has_chat_input_def has_chat_output_def listed_nodes_def
      chat_input_tags_def chat_output_tags_def py_truthy_def py_contains_def py_getitem_def
      py_iter_def on_ok_Inr any_type_in_plain has_vertex_def
      split: py.splits option.splits)


lemma rejected_unless_both:
  assumes "get_flow_by_id_or_endpoint_name c (model request) user_id = Inr (Some fl)"
    and "\<not> (has_chat_input (data fl) = Inr True \<and> has_chat_output (data fl) = Inr True)"
  shows "\<exists>status message. (status = 400 \<or> status = 500) \<and>
           openai_chat_completions c request user_id w =
             (Inl (HTTPException status
                (PDict [(''error'', PDict [(''message'', PStr message),
                   (''type'', PStr ''invalid_request_error''), (''param'', PNone), (''code'', PNone)])])), w)"
proof (cases "has_chat_input (data fl)")
  case (Inl e)
  then have "openai_chat_completions c request user_id w =
      (Inl (HTTPException 500
         (PDict [(''error'', PDict [(''message'', PStr (''Internal server error: '' @ str_exc e)),
            (''type'', PStr ''invalid_request_error''), (''param'', PNone), (''code'', PNone)])])), w)"
    using assms(1)
    by (simp add: openai_chat_completions_def handle_request_def error_model_dump_def
        create_openai_error_def)
  then show ?thesis by blast
next
  case (Inr has_in)
  note hi = this
  show ?thesis
  proof (cases has_in)
    case False
    then have "has_chat_input (data fl) = Inr False \<or> has_chat_output (data fl) = Inr False"
      using hi by simp
    from invalid_flow_bad_request [OF assms(1) this, of w] show ?thesis by blast
  next
    case True
    note t = this
    show ?thesis
    proof (cases "has_chat_output (data fl)")
      case (Inl e)
      then have "openai_chat_completions c request user_id w =
        (Inl (HTTPException 500
           (PDict [(''error'', PDict [(''message'', PStr (''Internal server error: '' @ str_exc e)),
              (''type'', PStr ''invalid_request_error''), (''param'', PNone), (''code'', PNone)])])), w)"
        using assms(1) hi t
        by (simp add: openai_chat_completions_def handle_request_def error_model_dump_def
            create_openai_error_def on_ok_Inl)
      then show ?thesis by blast
    next
      case (Inr has_out)
      then have "has_out = False" using assms(2) hi t by auto
      then have "has_chat_input (data fl) = Inr False \<or> has_chat_output (data fl) = Inr False"
        using Inr by simp
      from invalid_flow_bad_request [OF assms(1) this, of w] show ?thesis by blast
    qed
  qed
qed

text \<open>
  Claim C3, as amended. When the flow is found and its graph lacks a chat-input-capable
  or a chat-output-capable vertex, no node of the persisted graph data carrying the type
  tag, the adapter fails before any flow execution: it raises an HTTPException whose
  detail is the error body \<open>{error: {message, type, param, code}}\<close>, and the state is
  as it was, no identifier drawn, no task scheduled, no call of a flow executor. The
  status is 400 when the graph data is plain; for graph data of another shape it is 400
  or 500, the latter when one of the two functions raises at a node.
\<close>

theorem missing_chat_vertex_rejected:
  assumes "get_flow_by_id_or_endpoint_name c (model request) user_id = Inr (Some fl)"
    and "\<not> has_vertex chat_input_tags (listed_nodes (data fl)) \<or>
         \<not> has_vertex chat_output_tags (listed_nodes (data fl))"
  shows "(\<exists>status message. (status = 400 \<or> status = 500) \<and>
            openai_chat_completions c request user_id w =
              (Inl (HTTPException status
                 (PDict [(''error'', PDict [(''message'', PStr message),
                    (''type'', PStr ''invalid_request_error''), (''param'', PNone), (''code'', PNone)])])), w)) \<and>
         executions (snd (openai_chat_completions c request user_id w)) = executions w \<and>
         (plain_graph (data fl) \<longrightarrow>
            openai_chat_completions c request user_id w =
              (Inl (HTTPException 400
                 (PDict [(''error'', PDict [(''message'',
                     PStr ''Flow must have both ChatInput and ChatOutput components for OpenAI compatibility''),
                   (''type'', PStr ''invalid_request_error''), (''param'', PNone), (''code'', PNone)])])), w))"
proof -
  have nb: "\<not> (has_chat_input (data fl) = Inr True \<and> has_chat_output (data fl) = Inr True)"
    using assms(2) has_chat_input_True_vertex has_chat_output_True_vertex by blast
  have a: "\<exists>status message. (status = 400 \<or> status = 500) \<and>
            openai_chat_completions c request user_id w =
              (Inl (HTTPException status
                 (PDict [(''error'', PDict [(''message'', PStr message),
                    (''type'', PStr ''invalid_request_error''), (''param'', PNone), (''code'', PNone)])])), w)"
    by (rule rejected_unless_both [OF assms(1) nb])
  then have b: "executions (snd (openai_chat_completions c request user_id w)) = executions w"
    by auto
  have p: "openai_chat_completions c request user_id w =
              (Inl (HTTPException 400
                 (PDict [(''error'', PDict [(''message'',
                     PStr ''Flow must have both ChatInput and ChatOutput components for OpenAI compatibility''),
                   (''type'', PStr ''invalid_request_error''), (''param'', PNone), (''code'', PNone)])])), w)"
    if pg: "plain_graph (data fl)"
  proof -
    have "has_chat_input (data fl) = Inr False \<or> has_chat_output (data fl) = Inr False"
      using plain_graph_detectors [OF pg] assms(2) by auto
    then show ?thesis by (rule invalid_flow_bad_request [OF assms(1)])
  qed
  show ?thesis using a b p by blast
qed

text \<open>A plain graph with a ChatInput node and no ChatOutput node.\<close>

theorem missing_chat_vertex_rejected_witness:
  "get_flow_by_id_or_endpoint_name
      (example_collab (PDict [(''nodes'', PList [PDict [(''data'', PDict [(''type'', PStr ''ChatInput'')])]])])
         (nested_result (PStr ''hi'')) (ChunkRun [] None))
      (model (example_request False ''hello'')) ''u1''
    = Inr (Some (example_flow (PDict [(''nodes'', PList [PDict [(''data'', PDict [(''type'', PStr ''ChatInput'')])]])]))) \<and>
   \<not> has_vertex chat_output_tags (listed_nodes (data (example_flow
      (PDict [(''nodes'', PList [PDict [(''data'', PDict [(''type'', PStr ''ChatInput'')])]])])))) \<and>
   plain_graph (data (example_flow
      (PDict [(''nodes'', PList [PDict [(''data'', PDict [(''type'', PStr ''ChatInput'')])]])]))) \<and>
   openai_chat_completions
      (example_collab (PDict [(''nodes'', PList [PDict [(''data'', PDict [(''type'', PStr ''ChatInput'')])]])])
         (nested_result (PStr ''hi'')) (ChunkRun [] None))
      (example_request False ''hello'') ''u1'' start =
     (Inl (HTTPException 400
        (PDict [(''error'', PDict [(''message'',
            PStr ''Flow must have both ChatInput and ChatOutput components for OpenAI compatibility''),
          (''type'', PStr ''invalid_request_error''), (''param'', PNone), (''code'', PNone)])])), start) \<and>
   executions start = []"
proof -
  let ?d = "PDict [(''nodes'', PList [PDict [(''data'', PDict [(''type'', PStr ''ChatInput'')])]])]"
  let ?c = "example_collab ?d (nested_result (PStr ''hi'')) (ChunkRun [] None)"
  have h1: "get_flow_by_id_or_endpoint_name ?c (model (example_request False ''hello'')) ''u1''
      = Inr (Some (example_flow ?d))"
    by (simp add: example_collab_def)
  have out: "\<not> has_vertex chat_output_tags (listed_nodes (data (example_flow ?d)))"
    by (simp add: example_flow_def has_vertex_def listed_nodes_def node_tag_def chat_output_tags_def)
  then have h2: "\<not> has_vertex chat_input_tags (listed_nodes (data (example_flow ?d))) \<or>
      \<not> has_vertex chat_output_tags (listed_nodes (data (example_flow ?d)))" by simp
  have pg: "plain_graph (data (example_flow ?d))"
    by (simp add: example_flow_def plain_graph_def plain_node_def is_dict_def)
  have "openai_chat_completions ?c (example_request False ''hello'') ''u1'' start =
     (Inl (HTTPException 400
        (PDict [(''error'', PDict [(''message'',
            PStr ''Flow must have both ChatInput and ChatOutput components for OpenAI compatibility''),
          (''type'', PStr ''invalid_request_error''), (''param'', PNone), (''code'', PNone)])])), start)"
    using missing_chat_vertex_rejected [OF h1 h2, of start] pg by blast
  then show ?thesis using h1 out pg by (simp add: start_def)
qed

text \<open>
  Claim C3 as it is written fails. The graph of a ChatInput node and a node whose "data"
  is null has no chat-output-capable vertex. \<open>has_chat_input\<close> stops at the first node
  with True; \<open>has_chat_output\<close> goes on to the second node and raises AttributeError,
  and the adapter answers with status 500, not 400.
\<close>

theorem missing_chat_vertex_counterexample:
  "\<not> has_vertex chat_output_tags (listed_nodes
       (PDict [(''nodes'', PList [PDict [(''data'', PDict [(''type'', PStr ''ChatInput'')])],
                                  PDict [(''data'', PNone)]])])) \<and>
   has_chat_input (PDict [(''nodes'', PList [PDict [(''data'', PDict [(''type'', PStr ''ChatInput'')])],
                                             PDict [(''data'', PNone)]])]) = Inr True \<and>
   has_chat_output (PDict [(''nodes'', PList [PDict [(''data'', PDict [(''type'', PStr ''ChatInput'')])],
                                              PDict [(''data'', PNone)]])]) =
     Inl (PyException AttributeError
       ([CHR 0x27] @ ''NoneType'' @ [CHR 0x27] @ '' object has no attribute '' @ [CHR 0x27] @ ''get'' @ [CHR 0x27])) \<and>
   openai_chat_completions
      (example_collab (PDict [(''nodes'', PList [PDict [(''data'', PDict [(''type'', PStr ''ChatInput'')])],
                                                 PDict [(''data'', PNone)]])])
         (nested_result (PStr ''hi'')) (ChunkRun [] None))
      (example_request False ''hello'') ''u1'' start =
     (Inl (HTTPException 500
        (PDict [(''error'', PDict [(''message'',
            PStr (''Internal server error: '' @ [CHR 0x27] @ ''NoneType'' @ [CHR 0x27] @
                  '' object has no attribute '' @ [CHR 0x27] @ ''get'' @ [CHR 0x27])),
          (''type'', PStr ''invalid_request_error''), (''param'', PNone), (''code'', PNone)])])), start)"
  by (simp add: has_vertex_def listed_nodes_def node_tag_def chat_output_tags_def
      has_chat_input_def has_chat_output_def py_truthy_def py_contains_def
      py_getitem_def py_iter_def on_ok_def node_type_def py_get_def type_name_def quoted_def
      openai_chat_completions_def handle_request_def example_collab_def example_flow_def
      example_request_def error_model_dump_def create_openai_error_def)


text \<open>
  Claim C9, as amended. For graph data that is None, or a dict without the key "nodes",
  or whose nodes are dicts that lack "data" or whose "data" is a dict that lacks "type",
  \<open>has_chat_input\<close> and \<open>has_chat_output\<close> return False without raising, and a
  flow found with such data is rejected with HTTPException 400.
\<close>

theorem untagged_graph_rejected:
  assumes "untagged_graph flow_data"
  shows "has_chat_input flow_data = Inr False \<and> has_chat_output flow_data = Inr False \<and>
     (\<forall>c request user_id w fl.
        get_flow_by_id_or_endpoint_name c (model request) user_id = Inr (Some fl) \<and>
        data fl = flow_data \<longrightarrow>
        openai_chat_completions c request user_id w =
          (Inl (HTTPException 400
             (PDict [(''error'', PDict [(''message'',
                 PStr ''Flow must have both ChatInput and ChatOutput components for OpenAI compatibility''),
               (''type'', PStr ''invalid_request_error''), (''param'', PNone), (''code'', PNone)])])), w))"
  using untagged_has_chat [OF assms] invalid_flow_bad_request by simp

text \<open>Nodes without "data", and with a "data" that has no "type".\<close>

theorem untagged_graph_rejected_witness:
  "untagged_graph (PDict [(''nodes'', PList [PDict [(''id'', PStr ''n1'')], PDict [(''data'', PDict [])]])]) \<and>
   has_chat_input (PDict [(''nodes'', PList [PDict [(''id'', PStr ''n1'')], PDict [(''data'', PDict [])]])]) = Inr False \<and>
   has_chat_output (PDict [(''nodes'', PList [PDict [(''id'', PStr ''n1'')], PDict [(''data'', PDict [])]])]) = Inr False \<and>
   untagged_graph PNone \<and> has_chat_input PNone = Inr False \<and>
   untagged_graph (PDict [(''edges'', PList [])]) \<and> has_chat_output (PDict [(''edges'', PList [])]) = Inr False \<and>
   fst (openai_chat_completions (example_collab PNone (nested_result (PStr ''hi'')) (ChunkRun [] None))
          (example_request False ''hello'') ''u1'' start) =
     Inl (HTTPException 400
        (PDict [(''error'', PDict [(''message'',
            PStr ''Flow must have both ChatInput and ChatOutput components for OpenAI compatibility''),
          (''type'', PStr ''invalid_request_error''), (''param'', PNone), (''code'', PNone)])]))"
proof -
  let ?c = "example_collab PNone (nested_result (PStr ''hi'')) (ChunkRun [] None)"
  have h1: "untagged_graph (PDict [(''nodes'', PList [PDict [(''id'', PStr ''n1'')], PDict [(''data'', PDict [])]])])"
    by (simp add: untagged_graph_def untagged_node_def)
  have h2: "untagged_graph PNone" by (simp add: untagged_graph_def)
  have h3: "untagged_graph (PDict [(''edges'', PList [])])" by (simp add: untagged_graph_def)
  have lk: "get_flow_by_id_or_endpoint_name ?c (model (example_request False ''hello'')) ''u1''
      = Inr (Some (example_flow PNone)) \<and> data (example_flow PNone) = PNone"
    by (simp add: example_collab_def example_flow_def)
  have "openai_chat_completions ?c (example_request False ''hello'') ''u1'' start =
     (Inl (HTTPException 400
        (PDict [(''error'', PDict [(''message'',
            PStr ''Flow must have both ChatInput and ChatOutput components for OpenAI compatibility''),
          (''type'', PStr ''invalid_request_error''), (''param'', PNone), (''code'', PNone)])])), start)"
    using untagged_graph_rejected [OF h2] lk by blast
  then show ?thesis
    using untagged_graph_rejected [OF h1] untagged_graph_rejected [OF h2]
      untagged_graph_rejected [OF h3] h1 h2 h3
    by simp
qed

text \<open>
  Claim C9 as it is written fails: the two functions are not total. For a node whose
  "data" entry is present and null, \<open>.get("data", {})\<close> gives None, the second
  \<open>.get\<close> raises AttributeError, and the adapter answers with status 500, not 400.
\<close>

theorem has_chat_not_total_counterexample:
  "has_chat_input (PDict [(''nodes'', PList [PDict [(''data'', PNone)]])]) =
     Inl (PyException AttributeError
       ([CHR 0x27] @ ''NoneType'' @ [CHR 0x27] @ '' object has no attribute '' @ [CHR 0x27] @ ''get'' @ [CHR 0x27])) \<and>
   has_chat_output (PDict [(''nodes'', PList [PDict [(''data'', PNone)]])]) =
     Inl (PyException AttributeError
       ([CHR 0x27] @ ''NoneType'' @ [CHR 0x27] @ '' object has no attribute '' @ [CHR 0x27] @ ''get'' @ [CHR 0x27])) \<and>
   openai_chat_completions
      (example_collab (PDict [(''nodes'', PList [PDict [(''data'', PNone)]])])
         (nested_result (PStr ''hi'')) (ChunkRun [] None))
      (example_request False ''hello'') ''u1'' start =
     (Inl (HTTPException 500
        (PDict [(''error'', PDict [(''message'',
            PStr (''Internal server error: '' @ [CHR 0x27] @ ''NoneType'' @ [CHR 0x27] @
                  '' object has no attribute '' @ [CHR 0x27] @ ''get'' @ [CHR 0x27])),
          (''type'', PStr ''invalid_request_error''), (''param'', PNone), (''code'', PNone)])])), start)"
  by (simp add: has_chat_input_def has_chat_output_def py_truthy_def py_contains_def
      py_getitem_def py_iter_def on_ok_def node_type_def py_get_def type_name_def quoted_def
      openai_chat_completions_def handle_request_def example_collab_def example_flow_def
      example_request_def error_model_dump_def create_openai_error_def)

subsection \<open>The content of a non-streaming response\<close>

lemma extract_nested:
  "extract_response_content (Dict (nested_result v)) = Inr v"
  by (simp add: extract_response_content_def nested_result_def is_dict_def py_contains_def
      py_getitem_def py_truthy_def py_len_def py_getitem0_def py_get_def on_ok_def)












text \<open>
  A malformed result: in \<open>{"outputs": [null]}\<close> the first output is null, the walk
  cannot go on, and the test \<open>"outputs" in first_output\<close> raises TypeError.
\<close>

lemma extract_malformed_example:
  "walk content_path (PDict [(''outputs'', PList [PNone])]) = Malformed \<and>
   extract_response_content (Dict (PDict [(''outputs'', PList [PNone])])) =
     Inl (PyException TypeError
       (''argument of type '' @ [CHR 0x27] @ ''NoneType'' @ [CHR 0x27] @ '' is not iterable''))"
  by (simp add: content_path_def extract_response_content_def is_dict_def py_contains_def
      py_getitem_def py_truthy_def py_len_def py_getitem0_def on_ok_def type_name_def quoted_def)

lemma handle_request_valid:
  assumes "get_flow_by_id_or_endpoint_name c (model request) user_id = Inr (Some fl)"
    and "has_chat_input (data fl) = Inr True" and "has_chat_output (data fl) = Inr True"
    and "messages request \<noteq> []"
  shows "handle_request c request user_id w =
     (if stream request then
        (Inr (StreamingResponse
           (fst (generate_stream c request fl user_id (content (last (messages request)))
              (fst (choose_session_id c request w))
              (add_task fl user_id (snd (choose_session_id c request w)))))),
         snd (generate_stream c request fl user_id (content (last (messages request)))
              (fst (choose_session_id c request w))
              (add_task fl user_id (snd (choose_session_id c request w)))))
      else non_streaming c request fl user_id (content (last (messages request)))
              (fst (choose_session_id c request w))
              (add_task fl user_id (snd (choose_session_id c request w))))"
  using assms
  by (simp add: handle_request_def on_ok_def Let_def split: prod.splits)


lemma non_streaming_inv:
  assumes "non_streaming c request fl user_id mc sid w = (Inr (Completion resp), w')"
  shows "\<exists>text. resp_choices resp = [choice_with (PStr text)] \<and>
           resp_usage resp = Some (usage_of (length (str_split mc)) (length (str_split text)))"
  using assms
  by (auto simp: non_streaming_def await_def run_flow_for_openai_responses_def Let_def
      uuid4_def time_now_def py_split_def split: sum.splits prod.splits py.splits)

lemma handle_request_completion_inv:
  assumes "handle_request c request user_id w = (Inr (Completion resp), w')"
  shows "\<exists>fl sid w2. non_streaming c request fl user_id (content (last (messages request))) sid w2
            = (Inr (Completion resp), w')"
  using assms
  by (auto simp: handle_request_def Let_def split: sum.splits option.splits if_splits prod.splits)

lemma chat_completions_inv:
  assumes "openai_chat_completions c request user_id w = (Inr r, w')"
  shows "handle_request c request user_id w = (Inr r, w')"
  using assms
  by (auto simp: openai_chat_completions_def split: sum.splits prod.splits raised.splits)

lemma split_from_count:
  "length (split_from cur s) = (if cur = [] then word_starts True s else word_starts False s + 1)"
  by (induction s arbitrary: cur) auto

lemma str_split_word_count: "length (str_split s) = word_count s"
  by (simp add: str_split_def word_count_def split_from_count)

subsection \<open>The frames of a stream\<close>

lemma enumerate_shift:
  "map (\<lambda>(i, x). f (Suc i) x) (enumerate n xs) = map (\<lambda>(i, x). f i x) (enumerate (Suc n) xs)"
  by (induction xs arbitrary: n) auto

lemma stream_loop_content_frames:
  "stream_loop c mdl chunks w =
     (content_frames c mdl w chunks,
      w\<lparr>uuid_draws := uuid_draws w + length (filter (\<lambda>chunk. chunk \<noteq> []) chunks),
        clock_reads := clock_reads w + length (filter (\<lambda>chunk. chunk \<noteq> []) chunks)\<rparr>)"
proof (induction chunks arbitrary: w)
  case Nil
  show ?case by (simp add: content_frames_def)
next
  case (Cons chunk rest)
  show ?case
  proof (cases "chunk = []")
    case True
    then show ?thesis using Cons.IH [of w] by (simp add: content_frames_def)
  next
    case False
    let ?w2 = "w\<lparr>uuid_draws := Suc (uuid_draws w), clock_reads := Suc (clock_reads w)\<rparr>"
    have sh: "content_frames c mdl ?w2 rest =
        map (\<lambda>(i, chunk). content_frame (uuid_source c (uuid_draws w + i)) (clock c (clock_reads w + i)) mdl chunk)
         (enumerate (Suc 0) (filter (\<lambda>chunk. chunk \<noteq> []) rest))"
      using enumerate_shift [of "\<lambda>i chunk. content_frame (uuid_source c (uuid_draws w + i)) (clock c (clock_reads w + i)) mdl chunk" 0]
      by (simp add: content_frames_def)
    show ?thesis
      using False Cons.IH [of ?w2] sh
      by (simp add: uuid4_def time_now_def content_frames_def)
  qed
qed

lemma generate_stream_over_eq:
  assumes "async_for operand w = (ChunkRun chunks ending, w1)"
  shows "generate_stream_over c mdl operand w =
     (content_frames c mdl w1 chunks @
        (case ending of
           None \<Rightarrow> [stop_frame (uuid_source c (uuid_draws w1 + length (filter (\<lambda>chunk. chunk \<noteq> []) chunks)))
                       (clock c (clock_reads w1 + length (filter (\<lambda>chunk. chunk \<noteq> []) chunks))) mdl,
                     done_frame]
         | Some e \<Rightarrow> [error_frame e]),
      w1\<lparr>uuid_draws := uuid_draws w1 + length (filter (\<lambda>chunk. chunk \<noteq> []) chunks) + (if ending = None then 1 else 0),
         clock_reads := clock_reads w1 + length (filter (\<lambda>chunk. chunk \<noteq> []) chunks) + (if ending = None then 1 else 0)\<rparr>)"
  using assms
  by (cases ending) (simp_all add: generate_stream_over_def stream_loop_content_frames uuid4_def time_now_def)

lemma content_frame_not_done: "content_frame uid t mdl chunk \<noteq> done_frame"
  by (simp add: content_frame_def sse_frame_def done_frame_def chunk_model_dump_def)

lemma error_frame_not_done: "error_frame e \<noteq> done_frame"
  by (simp add: error_frame_def sse_frame_def done_frame_def error_model_dump_def)

lemma content_frames_not_done: "done_frame \<notin> set (content_frames c mdl w chunks)"
proof
  assume "done_frame \<in> set (content_frames c mdl w chunks)"
  then obtain uid t ch where "done_frame = content_frame uid t mdl ch"
    by (auto simp: content_frames_def)
  then show False using content_frame_not_done by metis
qed









lemmas py_ops = py_truthy_def py_contains_def py_getitem_def py_getitem0_def py_len_def
  py_get_def py_iter_def py_split_def on_ok_def node_type_def type_name_def quoted_def

lemma nat_digits_0: "nat_digits 0 = ''0''"
  by (simp add: nat_digits.simps [of 0] char_of_eq_iff)

lemma nat_digits_1: "nat_digits (Suc 0) = ''1''"
  by (simp add: nat_digits.simps [of "Suc 0"] char_of_eq_iff)

lemma example_data_valid:
  "has_chat_input example_data = Inr True" "has_chat_output example_data = Inr True"
  by (simp_all add: example_data_def has_chat_input_def has_chat_output_def py_ops)





text \<open>
  Claim C6. Every response of the non-streaming branch reports as \<open>prompt_tokens\<close> the
  number of words of the content of the last message, which is the text forwarded to the
  flow, as \<open>completion_tokens\<close> the number of words of the content of its choice, and
  as \<open>total_tokens\<close> their sum, words being the maximal runs of characters that are not
  whitespace.
\<close>

theorem usage_counts_words:
  assumes "openai_chat_completions c request user_id w = (Inr (Completion resp), w')"
  shows "\<exists>text. resp_choices resp = [choice_with (PStr text)] \<and>
           resp_usage resp = Some (PDict
             [(''prompt_tokens'', PInt (int (word_count (content (last (messages request)))))),
              (''completion_tokens'', PInt (int (word_count text))),
              (''total_tokens'',
                 PInt (int (word_count (content (last (messages request)))) + int (word_count text)))])"
proof -
  from chat_completions_inv [OF assms] handle_request_completion_inv
  obtain fl sid w2 where
    "non_streaming c request fl user_id (content (last (messages request))) sid w2 = (Inr (Completion resp), w')"
    by blast
  from non_streaming_inv [OF this] show ?thesis
    by (simp add: usage_of_def str_split_word_count)
qed

text \<open>The prompt "a b c" and the completion "x y": usage 3, 2 and 5.\<close>

theorem usage_counts_words_witness:
  "openai_chat_completions
      (example_collab example_data (nested_result (PStr ''x y'')) (ChunkRun [] None))
      (example_request False ''a b c'') ''u1'' start =
     (Inr (Completion
        \<lparr>resp_id = ''chatcmpl-id1'', resp_object = ''chat.completion'',
         resp_created = 1700000000, resp_model = ''f1'',
         resp_choices = [choice_with (PStr ''x y'')],
         resp_usage = Some (PDict [(''prompt_tokens'', PInt 3), (''completion_tokens'', PInt 2),
                                   (''total_tokens'', PInt 5)]),
         resp_system_fingerprint = None\<rparr>),
      \<lparr>uuid_draws = 2, clock_reads = 1,
       executions = [(example_flow example_data,
                      simplified_request ''a b c'' (Some ''id0'') None, ''u1'')],
       background_tasks = [\<lparr>payload_flow_id = ''f1'', payload_flow_name = ''demo'',
                             payload_user_id = ''u1''\<rparr>]\<rparr>) \<and>
   word_count ''a b c'' = 3 \<and> word_count ''x y'' = 2"
proof -
  let ?c = "example_collab example_data (nested_result (PStr ''x y'')) (ChunkRun [] None)"
  let ?rq = "example_request False ''a b c''"
  have ev: "openai_chat_completions ?c ?rq ''u1'' start =
     (Inr (Completion
        \<lparr>resp_id = ''chatcmpl-id1'', resp_object = ''chat.completion'',
         resp_created = 1700000000, resp_model = ''f1'',
         resp_choices = [choice_with (PStr ''x y'')],
         resp_usage = Some (PDict [(''prompt_tokens'', PInt 3), (''completion_tokens'', PInt 2),
                                   (''total_tokens'', PInt 5)]),
         resp_system_fingerprint = None\<rparr>),
      \<lparr>uuid_draws = 2, clock_reads = 1,
       executions = [(example_flow example_data,
                      simplified_request ''a b c'' (Some ''id0'') None, ''u1'')],
       background_tasks = [\<lparr>payload_flow_id = ''f1'', payload_flow_name = ''demo'',
                             payload_user_id = ''u1''\<rparr>]\<rparr>)"
    by (simp add: openai_chat_completions_def handle_request_def non_streaming_def await_def
        run_flow_for_openai_responses_def extract_nested example_data_valid on_ok_def
        choose_session_id_def uuid4_def time_now_def add_task_def Let_def
        example_collab_def example_flow_def example_request_def start_def
        py_split_def str_split_def is_space_def usage_of_def nat_digits_0 nat_digits_1)
  have wc: "word_count ''a b c'' = 3 \<and> word_count ''x y'' = 2"
    by (simp add: word_count_def is_space_def)
  show ?thesis
    using usage_counts_words [OF ev] ev wc by simp
qed

subsection \<open>Streaming\<close>




lemma nat_digits_2: "nat_digits (Suc (Suc 0)) = ''2''"
  by (simp add: nat_digits.simps [of "Suc (Suc 0)"] char_of_eq_iff)

lemma nat_digits_3: "nat_digits (Suc (Suc (Suc 0))) = ''3''"
  by (simp add: nat_digits.simps [of "Suc (Suc (Suc 0))"] char_of_eq_iff)

lemmas example_defs = example_collab_def example_flow_def example_request_def start_def

lemmas handler_defs = openai_chat_completions_def handle_request_def generate_stream_def
  generate_stream_over_def async_for_def choose_session_id_def add_task_def uuid4_def
  time_now_def Let_def on_ok_def



text \<open>
  Claim C1, as amended. When the iteration of the \<open>async for\<close> ends without an
  exception, also after no chunk at all, the frames end with the final chunk, whose delta
  is empty and whose finish_reason is "stop", followed by the terminator
  \<open>data: [DONE]\<close>, and these two are the last frames. When an exception is raised in the
  iteration, the last frame is the error frame, and the terminator is not emitted.
\<close>

theorem stream_last_frames:
  assumes "async_for operand w = (ChunkRun chunks ending, w1)"
  shows "(ending = None \<longrightarrow>
           (\<exists>uid t w'. generate_stream_over c mdl operand w =
               (content_frames c mdl w1 chunks @ [stop_frame uid t mdl, done_frame], w') \<and>
              stop_frame uid t mdl =
                ''data: '' @ json (PDict [(''id'', PStr (''chatcmpl-'' @ uid)),
                    (''object'', PStr ''chat.completion.chunk''), (''created'', PInt t),
                    (''model'', PStr mdl),
                    (''choices'', PList [PDict [(''index'', PInt 0), (''delta'', PDict []),
                                                (''finish_reason'', PStr ''stop'')]]),
                    (''system_fingerprint'', PNone)]) @ [LF, LF])) \<and>
         (\<forall>e. ending = Some e \<longrightarrow>
           (\<exists>w'. generate_stream_over c mdl operand w =
               (content_frames c mdl w1 chunks @ [error_frame e], w')) \<and>
           done_frame \<notin> set (content_frames c mdl w1 chunks @ [error_frame e]))"
proof (intro conjI impI allI)
  assume n: "ending = None"
  have st: "stop_frame uid t mdl =
                ''data: '' @ json (PDict [(''id'', PStr (''chatcmpl-'' @ uid)),
                    (''object'', PStr ''chat.completion.chunk''), (''created'', PInt t),
                    (''model'', PStr mdl),
                    (''choices'', PList [PDict [(''index'', PInt 0), (''delta'', PDict []),
                                                (''finish_reason'', PStr ''stop'')]]),
                    (''system_fingerprint'', PNone)]) @ [LF, LF]" for uid t
    by (simp add: stop_frame_def sse_frame_def chunk_model_dump_def final_chunk_def opt_str_def)
  show "\<exists>uid t w'. generate_stream_over c mdl operand w =
               (content_frames c mdl w1 chunks @ [stop_frame uid t mdl, done_frame], w') \<and>
              stop_frame uid t mdl =
                ''data: '' @ json (PDict [(''id'', PStr (''chatcmpl-'' @ uid)),
                    (''object'', PStr ''chat.completion.chunk''), (''created'', PInt t),
                    (''model'', PStr mdl),
                    (''choices'', PList [PDict [(''index'', PInt 0), (''delta'', PDict []),
                                                (''finish_reason'', PStr ''stop'')]]),
                    (''system_fingerprint'', PNone)]) @ [LF, LF]"
    using generate_stream_over_eq [OF assms, of c mdl] n st by auto
next
  fix e assume s: "ending = Some e"
  show "\<exists>w'. generate_stream_over c mdl operand w =
               (content_frames c mdl w1 chunks @ [error_frame e], w')"
    using generate_stream_over_eq [OF assms, of c mdl] s by simp
  show "done_frame \<notin> set (content_frames c mdl w1 chunks @ [error_frame e])"
    using content_frames_not_done [of c mdl w1 chunks] error_frame_not_done [of e] by auto
qed


text \<open>A generator that yields no chunk and ends: the final chunk, then the terminator.\<close>

theorem stream_last_frames_witness:
  "async_for (OfGenerator (stream_generator
        (example_collab example_data (nested_result (PStr ''hi'')) (ChunkRun [] None))
        (example_flow example_data) (simplified_request ''hello'' (Some ''s1'') None) ''u1'')) start
     = (ChunkRun [] None,
        start\<lparr>executions := [(example_flow example_data, simplified_request ''hello'' (Some ''s1'') None, ''u1'')]\<rparr>) \<and>
   fst (generate_stream_over
      (example_collab example_data (nested_result (PStr ''hi'')) (ChunkRun [] None)) ''f1''
      (OfGenerator (stream_generator
        (example_collab example_data (nested_result (PStr ''hi'')) (ChunkRun [] None))
        (example_flow example_data) (simplified_request ''hello'' (Some ''s1'') None) ''u1'')) start)
     = [stop_frame ''id0'' 1700000000 ''f1'', done_frame]"
proof -
  let ?c = "example_collab example_data (nested_result (PStr ''hi'')) (ChunkRun [] None)"
  let ?op = "OfGenerator (stream_generator ?c (example_flow example_data)
      (simplified_request ''hello'' (Some ''s1'') None) ''u1'')"
  have h: "async_for ?op start = (ChunkRun [] None,
        start\<lparr>executions := [(example_flow example_data, simplified_request ''hello'' (Some ''s1'') None, ''u1'')]\<rparr>)"
    by (simp add: async_for_def stream_generator_def example_collab_def start_def)
  have ev: "fst (generate_stream_over ?c ''f1'' ?op start) = [stop_frame ''id0'' 1700000000 ''f1'', done_frame]"
    by (simp add: generate_stream_over_def async_for_def stream_generator_def example_collab_def
        start_def uuid4_def time_now_def nat_digits_0)
  show ?thesis
    using stream_last_frames [OF h, of ?c "''f1''"] h ev
    by simp
qed

text \<open>
  Claim C1 as it is written fails. A streaming request to a flow that yields no chunk
  and raises nothing is answered by the single error frame: the operand of the
  \<open>async for\<close> is a coroutine object. And where the loop does run over a generator
  that raises after the chunk "Hel", the frames are that chunk's frame and the error
  frame; neither run ends with the terminator.
\<close>

theorem stream_last_frames_counterexample:
  "fst (openai_chat_completions
      (example_collab example_data (nested_result (PStr ''hi'')) (ChunkRun [] None))
      (example_request True ''hello'') ''u1'' start)
     = Inr (StreamingResponse [error_frame not_async_iterable]) \<and>
   error_frame not_async_iterable \<noteq> done_frame \<and>
   fst (generate_stream_over
      (example_collab example_data (nested_result (PStr ''hi'')) (ChunkRun [] None)) ''f1''
      (OfGenerator (AsyncGenerator (\<lambda>w. (ChunkRun [''Hel''] (Some (PyException OtherError ''boom'')), w))))
      start)
     = [content_frame ''id0'' 1700000000 ''f1'' ''Hel'', error_frame (PyException OtherError ''boom'')] \<and>
   error_frame (PyException OtherError ''boom'') \<noteq> done_frame"
  by (simp add: handler_defs example_defs example_data_valid error_frame_not_done nat_digits_0)

text \<open>
  Claim C4, evaluated. For a streaming request to a flow whose generator yields "Hel" and
  "lo", the adapter answers with one frame, the error frame of the TypeError, and the
  flow is not run. The loop body itself, run over the generator the coroutine would
  return, gives what the claim describes: two content frames, the final chunk, the
  terminator.
\<close>

theorem stream_two_chunks_evaluation:
  "openai_chat_completions
      (example_collab example_data (nested_result (PStr ''hi'')) (ChunkRun [''Hel'', ''lo''] None))
      (example_request True ''hello'') ''u1'' start
     = (Inr (StreamingResponse [error_frame not_async_iterable]),
        \<lparr>uuid_draws = 1, clock_reads = 0, executions = [],
         background_tasks = [\<lparr>payload_flow_id = ''f1'', payload_flow_name = ''demo'',
                               payload_user_id = ''u1''\<rparr>]\<rparr>) \<and>
   fst (generate_stream_over
      (example_collab example_data (nested_result (PStr ''hi'')) (ChunkRun [''Hel'', ''lo''] None)) ''f1''
      (OfGenerator (stream_generator
        (example_collab example_data (nested_result (PStr ''hi'')) (ChunkRun [''Hel'', ''lo''] None))
        (example_flow example_data) (simplified_request ''hello'' (Some ''id0'') None) ''u1''))
      (start\<lparr>uuid_draws := 1\<rparr>))
     = [content_frame ''id1'' 1700000000 ''f1'' ''Hel'', content_frame ''id2'' 1700000001 ''f1'' ''lo'',
        stop_frame ''id3'' 1700000002 ''f1'', done_frame]"
  by (simp add: handler_defs example_defs example_data_valid stream_generator_def
      nat_digits_0 nat_digits_1 nat_digits_2 nat_digits_3)

text \<open>
  Claim C8, evaluated. For a streaming request nothing reaches a flow executor: the list
  of calls stays empty. The same request without streaming makes one call, whose input
  value is the content of the last message and whose session id is the identifier drawn.
\<close>

theorem streaming_forwards_nothing:
  "executions (snd (openai_chat_completions
      (example_collab example_data (nested_result (PStr ''hi'')) (ChunkRun [''Hel'', ''lo''] None))
      (example_request True ''hello'') ''u1'' start)) = [] \<and>
   executions (snd (openai_chat_completions
      (example_collab example_data (nested_result (PStr ''hi'')) (ChunkRun [''Hel'', ''lo''] None))
      (example_request False ''hello'') ''u1'' start))
     = [(example_flow example_data,
         \<lparr>input_value = ''hello'', input_type = ''chat'', output_type = ''chat'',
          run_tweaks = PDict [], run_session_id = Some ''id0''\<rparr>, ''u1'')]"
  by (simp add: handler_defs example_defs example_data_valid non_streaming_def await_def
      run_flow_for_openai_responses_def simplified_request_def extract_nested py_split_def
      nat_digits_0)

text \<open>
  The non-streaming branch in general: one call of the executor, with the content of the
  last message as input value and the given or the drawn session id.
\<close>

lemma non_streaming_forwards_last_message:
  assumes "get_flow_by_id_or_endpoint_name c (model request) user_id = Inr (Some fl)"
    and "has_chat_input (data fl) = Inr True" and "has_chat_output (data fl) = Inr True"
    and "messages request \<noteq> []" and "\<not> stream request"
  shows "executions (snd (openai_chat_completions c request user_id w)) =
           executions w @
           [(fl, \<lparr>input_value = content (last (messages request)), input_type = ''chat'',
                  output_type = ''chat'',
                  run_tweaks = (case tweaks request of None \<Rightarrow> PDict []
                                | Some t \<Rightarrow> if py_truthy t then t else PDict []),
                  run_session_id = Some (case session_id request of
                       None \<Rightarrow> uuid_source c (uuid_draws w)
                     | Some s \<Rightarrow> if s \<noteq> [] then s else uuid_source c (uuid_draws w))\<rparr>,
             user_id)]"
proof -
  have ex: "executions (snd (non_streaming c request fl user_id mc sid w2)) =
      executions w2 @ [(fl, simplified_request mc (Some sid) (tweaks request), user_id)]" for mc sid w2
    by (simp add: non_streaming_def await_def run_flow_for_openai_responses_def Let_def
        uuid4_def time_now_def split: sum.splits prod.splits)
  have sid: "fst (choose_session_id c request w) = (case session_id request of
                       None \<Rightarrow> uuid_source c (uuid_draws w)
                     | Some s \<Rightarrow> if s \<noteq> [] then s else uuid_source c (uuid_draws w))"
    and ws: "executions (snd (choose_session_id c request w)) = executions w"
    by (simp_all add: choose_session_id_def uuid4_def split: option.splits)
  have "executions (snd (handle_request c request user_id w)) =
           executions w @ [(fl, simplified_request (content (last (messages request)))
              (Some (fst (choose_session_id c request w))) (tweaks request), user_id)]"
    using handle_request_valid [OF assms(1-4), of w] assms(5) ex ws
    by (simp add: add_task_def)
  moreover have "executions (snd (openai_chat_completions c request user_id w)) =
      executions (snd (handle_request c request user_id w))"
    by (simp add: openai_chat_completions_def split: prod.splits sum.splits raised.splits)
  ultimately show ?thesis by (simp add: sid simplified_request_def)
qed

end
